theory Spec2Isabelle
  imports Main "HOL-Library.Word"
begin

section \<open>Bucket endpoints of the satellite's metainfo service\<close>

text \<open>
  A shallow embedding of \<^verbatim>\<open>satellite/metainfo/endpoint_bucket.go\<close>.
  Every Go function of that file is one definition below, under the name it has in the
  source. The collaborators the endpoint talks to (the bucket catalogue, the project
  settings, the object metabase, the attribution bookkeeping, the piece deleter) are not
  part of that file: they are fields of the record \<open>Endpoint\<close>, each a function on an
  abstract world \<open>'w\<close> that returns its reply and the world it leaves behind. Whatever
  other requests do to the stores while one request runs is part of what such a function
  may do to the world, so races are inputs of the model, not something it rules out.

  Monitoring (\<^verbatim>\<open>mon.Task\<close>, \<^verbatim>\<open>versionCollector.collect\<close>) and logging
  (\<^verbatim>\<open>endpoint.log.Error\<close>) do not influence any result and are left out.
  \<^verbatim>\<open>time.Now()\<close> is the argument \<open>now\<close> of each endpoint.
\<close>

subsection \<open>Errors\<close>

text \<open>The status codes of \<^verbatim>\<open>rpcstatus\<close>.\<close>

datatype StatusCode =
    Unknown | InvalidArgument | NotFound | AlreadyExists | PermissionDenied
  | ResourceExhausted | FailedPrecondition | Internal | Unauthenticated

text \<open>
  The error classes (\<^verbatim>\<open>errs.Class\<close>) the file tests for or wraps with:
  \<^verbatim>\<open>ErrBucketNotEmpty\<close> and \<^verbatim>\<open>Error\<close> of package metainfo (the latter is
  \<open>MetainfoError\<close> here), \<^verbatim>\<open>storj.ErrBucketNotFound\<close>, and any other class a
  collaborator may use.
\<close>

datatype Class = ErrBucketNotEmpty | ErrBucketNotFound | MetainfoError | OtherClass string

text \<open>The two denials of the authorization gate, in the words of the specification.\<close>

datatype Denial = InvalidCredential | Forbidden

text \<open>
  A Go \<^verbatim>\<open>error\<close> value. \<open>ClassNew c m\<close> is \<^verbatim>\<open>c.New(m)\<close>, \<open>ClassWrap c e\<close> is
  \<^verbatim>\<open>c.Wrap(e)\<close>, \<open>ErrsNew m\<close> is \<^verbatim>\<open>errs.New(m)\<close>, \<open>Status code m\<close> is
  \<^verbatim>\<open>rpcstatus.Error(code, m)\<close>. A message is kept unformatted: the literal text, the
  error whose \<^verbatim>\<open>Error()\<close> text it is, or a format string with its argument.
\<close>

datatype error =
    ClassNew Class string
  | ClassWrap Class error
  | ErrsNew string
  | Status StatusCode msg
  | Denied Denial
  | External string
and msg =
    Text string
  | ErrorText error
  | FmtErr string error
  | FmtInt string int

text \<open>\<^verbatim>\<open>c.Has(err)\<close>: some error of the chain was made by class \<open>c\<close>.\<close>

fun Has :: "Class \<Rightarrow> error \<Rightarrow> bool" where
  "Has c (ClassNew c' m) = (c' = c)"
| "Has c (ClassWrap c' e) = (if c' = c then True else Has c e)"
| "Has c (ErrsNew m) = False"
| "Has c (Status code m) = False"
| "Has c (Denied d) = False"
| "Has c (External m) = False"

text \<open>
  \<^verbatim>\<open>c.Wrap(err)\<close>: \<^verbatim>\<open>nil\<close> stays \<^verbatim>\<open>nil\<close>, an error whose outermost class is
  already \<open>c\<close> is returned as it is, any other error gets the class on top.
\<close>

fun Wrap :: "Class \<Rightarrow> error \<Rightarrow> error" where
  "Wrap c (ClassNew c' m) = (if c' = c then ClassNew c' m else ClassWrap c (ClassNew c' m))"
| "Wrap c (ClassWrap c' e) = (if c' = c then ClassWrap c' e else ClassWrap c (ClassWrap c' e))"
| "Wrap c (ErrsNew m) = ClassWrap c (ErrsNew m)"
| "Wrap c (Status code m) = ClassWrap c (Status code m)"
| "Wrap c (Denied d) = ClassWrap c (Denied d)"
| "Wrap c (External m) = ClassWrap c (External m)"

text \<open>\<^verbatim>\<open>rpcstatus.Code(err)\<close>: the code of a status error, \<open>Unknown\<close> for any other.\<close>

fun Code :: "error \<Rightarrow> StatusCode" where
  "Code (Status code m) = code"
| "Code (ClassNew c m) = Unknown"
| "Code (ClassWrap c e) = Code e"
| "Code (ErrsNew m) = Unknown"
| "Code (Denied d) = Unknown"
| "Code (External m) = Unknown"

subsection \<open>Data\<close>

type_synonym bytes = string
type_synonym UUID = "128 word"
type_synonym Time = int
type_synonym int32 = "32 word"
type_synonym int64 = "64 word"

text \<open>\<^verbatim>\<open>uuid.UUID.IsZero\<close>: all sixteen bytes are zero.\<close>

definition IsZero :: "UUID \<Rightarrow> bool" where
  "IsZero u = (u = 0)"

datatype ActionType = ActionRead | ActionWrite | ActionList | ActionDelete | ActionProjectInfo

text \<open>\<^verbatim>\<open>macaroon.Action\<close>; a field the file does not set is empty.\<close>

record Action =
  Action_Op :: ActionType
  Action_Bucket :: bytes
  Action_Time :: Time

record RequestHeader =
  ApiKey :: bytes
  UserAgent :: bytes

text \<open>\<^verbatim>\<open>console.APIKeyInfo\<close>, of which the file reads the project.\<close>

record KeyInfo =
  KeyInfo_ProjectID :: UUID

text \<open>\<^verbatim>\<open>macaroon.AllowedBuckets\<close>.\<close>

record AllowedBuckets =
  Allowed_All :: bool
  Allowed_Buckets :: "string set"

text \<open>
  The API key a request header carries, with what the file asks of it:
  \<^verbatim>\<open>key.Check\<close> (\<open>None\<close> when the action is permitted) and
  \<^verbatim>\<open>key.GetAllowedBuckets\<close>, and the key info the satellite holds for it.
\<close>

record APIKey =
  Key_Info :: KeyInfo
  Check :: "Action \<Rightarrow> error option"
  GetAllowedBuckets :: "Action \<Rightarrow> error + AllowedBuckets"

datatype CipherSuite = ENC_UNSPECIFIED | ENC_NULL | ENC_AESGCM | ENC_SECRETBOX

text \<open>\<^verbatim>\<open>pb.RedundancyScheme\<close>; its numbers are \<^verbatim>\<open>int32\<close>.\<close>

record RedundancyScheme =
  RS_Type :: int32
  MinReq :: int32
  Total :: int32
  RepairThreshold :: int32
  SuccessThreshold :: int32
  ErasureShareSize :: int32

record EncryptionParameters =
  CipherSuite :: CipherSuite
  BlockSize :: int64

text \<open>\<^verbatim>\<open>buckets.Bucket\<close>, the minimal bucket the catalogue returns on a read.\<close>

record Bucket =
  Bucket_Name :: bytes
  Bucket_CreatedAt :: Time

text \<open>
  \<^verbatim>\<open>storj.Bucket\<close>, the full catalogue record. The stored cipher, segment size,
  redundancy and encryption parameters are fields of it.
\<close>

record storj_Bucket =
  ID :: UUID
  Name :: string
  ProjectID :: UUID
  PartnerID :: UUID
  Created :: Time
  PathCipher :: CipherSuite
  DefaultSegmentsSize :: int64
  DefaultRedundancyScheme :: RedundancyScheme
  DefaultEncryptionParameters :: EncryptionParameters

text \<open>\<^verbatim>\<open>pb.Bucket\<close>, the wire representation of a bucket.\<close>

record pb_Bucket =
  pb_Name :: bytes
  pb_PathCipher :: CipherSuite
  pb_CreatedAt :: Time
  pb_DefaultSegmentSize :: int64
  pb_DefaultRedundancyScheme :: "RedundancyScheme option"
  pb_DefaultEncryptionParameters :: "EncryptionParameters option"

record BucketGetRequest =
  GetReq_Header :: RequestHeader
  GetReq_Name :: bytes

record BucketGetResponse =
  GetResp_Bucket :: "pb_Bucket option"

text \<open>
  \<^verbatim>\<open>pb.BucketCreateRequest\<close>: besides the name and the partner id the client may
  send a cipher, a segment size, a redundancy scheme and encryption parameters.
\<close>

record BucketCreateRequest =
  CreateReq_Header :: RequestHeader
  CreateReq_Name :: bytes
  CreateReq_PathCipher :: CipherSuite
  CreateReq_PartnerId :: bytes
  CreateReq_DefaultSegmentSize :: int64
  CreateReq_DefaultRedundancyScheme :: "RedundancyScheme option"
  CreateReq_DefaultEncryptionParameters :: "EncryptionParameters option"

record BucketCreateResponse =
  CreateResp_Bucket :: "pb_Bucket option"

record BucketDeleteRequest =
  DeleteReq_Header :: RequestHeader
  DeleteReq_Name :: bytes
  DeleteReq_DeleteAll :: bool

record BucketDeleteResponse =
  DeleteResp_Bucket :: "pb_Bucket option"
  DeleteResp_DeletedObjectsCount :: int64

record BucketListRequest =
  ListReq_Header :: RequestHeader
  ListReq_Cursor :: bytes
  ListReq_Limit :: int32
  ListReq_Direction :: int32

record BucketListItem =
  Item_Name :: bytes
  Item_CreatedAt :: Time

record BucketListResponse =
  ListResp_Items :: "BucketListItem list"
  ListResp_More :: bool

text \<open>\<^verbatim>\<open>storj.BucketListOptions\<close> and \<^verbatim>\<open>storj.BucketList\<close>.\<close>

record BucketListOptions =
  Opts_Cursor :: string
  Opts_Limit :: int64
  Opts_Direction :: "8 word"

record BucketList =
  List_More :: bool
  List_Items :: "storj_Bucket list"

text \<open>\<^verbatim>\<open>metabase.BucketLocation\<close> and \<^verbatim>\<open>metabase.DeletedSegmentInfo\<close>.\<close>

record BucketLocation =
  Loc_ProjectID :: UUID
  Loc_BucketName :: string

record DeletedSegmentInfo =
  RootPieceID :: bytes
  Pieces :: "(16 word \<times> bytes) list"

text \<open>
  \<^verbatim>\<open>verifyPermission\<close>: an action to check and whether a denial of it fails the
  request. The flag behind \<^verbatim>\<open>actionPermitted\<close> is returned by \<open>validateAuthN\<close>.
\<close>

record verifyPermission =
  action :: Action
  optional :: bool

subsection \<open>The endpoint and its collaborators\<close>

text \<open>
  \<^verbatim>\<open>Endpoint\<close>: the configuration the file reads (\<^verbatim>\<open>config.MaxSegmentSize\<close>,
  \<^verbatim>\<open>config.ProjectLimits.MaxBuckets\<close>, \<^verbatim>\<open>defaultRS\<close>) and the collaborators it
  calls. A collaborator that returns a value and an error is a sum (\<open>Inl\<close> the error),
  one that returns an error only is an \<open>error option\<close>. Go's \<^verbatim>\<open>int\<close> is \<open>int\<close>:
  the file compares such numbers and computes nothing with them.
  \<^verbatim>\<open>metabase.DeleteBucketObjects\<close> takes the \<^verbatim>\<open>DeletePieces\<close> callback.
  \<^verbatim>\<open>uuid.New\<close> draws on the world; \<^verbatim>\<open>UnmarshalJSON\<close> takes the receiver and the
  text and returns the receiver as the call leaves it, with the error.
\<close>

record 'w Endpoint =
  MaxSegmentSize :: int64
  MaxBuckets :: int
  defaultRS :: RedundancyScheme
  getAPIKey :: "RequestHeader \<Rightarrow> error + APIKey"
  validateBucket :: "bytes \<Rightarrow> error option"
  ensureAttribution :: "RequestHeader \<Rightarrow> KeyInfo \<Rightarrow> bytes \<Rightarrow> 'w \<Rightarrow> error option \<times> 'w"
  deleteSegmentPieces :: "DeletedSegmentInfo list \<Rightarrow> 'w \<Rightarrow> 'w"
  buckets_GetMinimalBucket :: "bytes \<Rightarrow> UUID \<Rightarrow> 'w \<Rightarrow> (error + Bucket) \<times> 'w"
  buckets_HasBucket :: "bytes \<Rightarrow> UUID \<Rightarrow> 'w \<Rightarrow> (error + bool) \<times> 'w"
  buckets_CountBuckets :: "UUID \<Rightarrow> 'w \<Rightarrow> (error + int) \<times> 'w"
  buckets_CreateBucket :: "storj_Bucket \<Rightarrow> 'w \<Rightarrow> (error + storj_Bucket) \<times> 'w"
  buckets_DeleteBucket :: "bytes \<Rightarrow> UUID \<Rightarrow> 'w \<Rightarrow> error option \<times> 'w"
  buckets_ListBuckets ::
    "UUID \<Rightarrow> BucketListOptions \<Rightarrow> AllowedBuckets \<Rightarrow> 'w \<Rightarrow> (error + BucketList) \<times> 'w"
  projects_GetMaxBuckets :: "UUID \<Rightarrow> 'w \<Rightarrow> (error + int option) \<times> 'w"
  metabase_BucketEmpty :: "UUID \<Rightarrow> string \<Rightarrow> 'w \<Rightarrow> (error + bool) \<times> 'w"
  metabase_DeleteBucketObjects ::
    "BucketLocation \<Rightarrow> (DeletedSegmentInfo list \<Rightarrow> 'w \<Rightarrow> error option \<times> 'w) \<Rightarrow> 'w
      \<Rightarrow> (error + int64) \<times> 'w"
  uuid_New :: "'w \<Rightarrow> (error + UUID) \<times> 'w"
  uuid_UnmarshalJSON :: "UUID \<Rightarrow> bytes \<Rightarrow> UUID \<times> error option"

subsection \<open>The authorization gate\<close>

text \<open>
  The key permits an action: \<^verbatim>\<open>key.Check\<close> returns no error for it.
\<close>

definition permitted :: "APIKey \<Rightarrow> Action \<Rightarrow> bool" where
  "permitted key act = (Check key act = None)"

text \<open>
  Modelled from the spec: \<^verbatim>\<open>validateAuthN\<close> is a method of the endpoint that this
  file calls and does not define. Section 4.1 of the specification gives its contract:
  the credential is checked against one mandatory action and any number of optional
  ones; a malformed or expired credential is denied as \<open>InvalidCredential\<close>, a
  credential that lacks a mandatory action as \<open>Forbidden\<close>; the outcome of every check
  is reported as a boolean, and a denied optional action does not fail the call; the
  check has no side effect. The booleans come back in the order of the permissions.
\<close>

definition validateAuthN ::
  "'w Endpoint \<Rightarrow> RequestHeader \<Rightarrow> verifyPermission list \<Rightarrow> error + (KeyInfo \<times> bool list)" where
  "validateAuthN endpoint header permissions =
     (case getAPIKey endpoint header of
        Inl err \<Rightarrow> Inl (Denied InvalidCredential)
      | Inr key \<Rightarrow>
          if list_ex (\<lambda>p. if optional p then False else \<not> permitted key (action p)) permissions
          then Inl (Denied Forbidden)
          else Inr (Key_Info key, map (\<lambda>p. permitted key (action p)) permissions))"

text \<open>
  Modelled from the spec: \<^verbatim>\<open>validateAuth\<close>, the other method of the gate that this
  file calls and does not define, is the same check (section 4.1) with the one mandatory
  action and no optional one.
\<close>

definition validateAuth :: "'w Endpoint \<Rightarrow> RequestHeader \<Rightarrow> Action \<Rightarrow> error + KeyInfo" where
  "validateAuth endpoint header act =
     (case validateAuthN endpoint header [\<lparr>action = act, optional = False\<rparr>] of
        Inl err \<Rightarrow> Inl err
      | Inr (keyInfo, flags) \<Rightarrow> Inr keyInfo)"

subsection \<open>Conversions\<close>

text \<open>
  \<^verbatim>\<open>convertBucketToProto\<close>. The block size is the \<^verbatim>\<open>int32\<close> product of the share
  size and the required share count, widened to \<^verbatim>\<open>int64\<close> afterwards. The scheme
  is \<^verbatim>\<open>endpoint.defaultRS\<close> at every call and is taken as a value.
\<close>

definition convertBucketToProto ::
  "Bucket \<Rightarrow> RedundancyScheme \<Rightarrow> int64 \<Rightarrow> error + pb_Bucket option" where
  "convertBucketToProto bucket rs maxSegmentSize =
     (if length (Bucket_Name bucket) = 0 then Inr None
      else Inr (Some \<lparr>
        pb_Name = Bucket_Name bucket,
        pb_PathCipher = ENC_AESGCM,
        pb_CreatedAt = Bucket_CreatedAt bucket,
        pb_DefaultSegmentSize = maxSegmentSize,
        pb_DefaultRedundancyScheme = Some rs,
        pb_DefaultEncryptionParameters = Some \<lparr>
          CipherSuite = ENC_AESGCM,
          BlockSize = scast (ErasureShareSize rs * MinReq rs)\<rparr>\<rparr>))"

text \<open>
  \<^verbatim>\<open>convertProtoToBucket\<close>. The fields of \<^verbatim>\<open>storj.Bucket\<close> that the literal does
  not set have Go's zero values.
\<close>

definition convertProtoToBucket ::
  "'w Endpoint \<Rightarrow> BucketCreateRequest \<Rightarrow> UUID \<Rightarrow> 'w \<Rightarrow> (error + storj_Bucket) \<times> 'w" where
  "convertProtoToBucket endpoint req projectID w =
     (case uuid_New endpoint w of
        (Inl err, w1) \<Rightarrow> (Inl err, w1)
      | (Inr bucketID, w1) \<Rightarrow>
          (case uuid_UnmarshalJSON endpoint 0 (CreateReq_PartnerId req) of
             (partnerID, err) \<Rightarrow>
               if err \<noteq> None \<and> \<not> IsZero partnerID then (Inl (ErrsNew ''Invalid uuid''), w1)
               else (Inr \<lparr>
                 ID = bucketID,
                 Name = CreateReq_Name req,
                 ProjectID = projectID,
                 PartnerID = partnerID,
                 Created = 0,
                 PathCipher = ENC_UNSPECIFIED,
                 DefaultSegmentsSize = 0,
                 DefaultRedundancyScheme = \<lparr>RS_Type = 0, MinReq = 0, Total = 0,
                   RepairThreshold = 0, SuccessThreshold = 0, ErasureShareSize = 0\<rparr>,
                 DefaultEncryptionParameters = \<lparr>CipherSuite = ENC_UNSPECIFIED, BlockSize = 0\<rparr>\<rparr>, w1)))"

text \<open>\<^verbatim>\<open>getAllowedBuckets\<close>.\<close>

definition getAllowedBuckets ::
  "'w Endpoint \<Rightarrow> RequestHeader \<Rightarrow> Action \<Rightarrow> error + AllowedBuckets" where
  "getAllowedBuckets endpoint header act =
     (case getAPIKey endpoint header of
        Inl err \<Rightarrow> Inl (Status InvalidArgument (FmtErr ''Invalid API credentials: %v'' err))
      | Inr key \<Rightarrow>
          (case GetAllowedBuckets key act of
             Inl err \<Rightarrow> Inl (Status Internal (FmtErr ''GetAllowedBuckets: %v'' err))
           | Inr allowedBuckets \<Rightarrow> Inr allowedBuckets))"

subsection \<open>GetBucket\<close>

text \<open>
  An endpoint returns Go's pair of a response pointer and an error, here a pair of
  options, and the world it leaves.
\<close>

definition GetBucket ::
  "'w Endpoint \<Rightarrow> BucketGetRequest \<Rightarrow> Time \<Rightarrow> 'w
    \<Rightarrow> (BucketGetResponse option \<times> error option) \<times> 'w" where
  "GetBucket endpoint req now w =
     (case validateAuth endpoint (GetReq_Header req)
             \<lparr>Action_Op = ActionRead, Action_Bucket = GetReq_Name req, Action_Time = now\<rparr> of
        Inl err \<Rightarrow> ((None, Some err), w)
      | Inr keyInfo \<Rightarrow>
          (case buckets_GetMinimalBucket endpoint (GetReq_Name req) (KeyInfo_ProjectID keyInfo) w of
             (Inl err, w1) \<Rightarrow>
               if Has ErrBucketNotFound err
               then ((None, Some (Status NotFound (ErrorText err))), w1)
               else ((None, Some (Status Internal (ErrorText err))), w1)
           | (Inr bucket, w1) \<Rightarrow>
               (case convertBucketToProto bucket (defaultRS endpoint) (MaxSegmentSize endpoint) of
                  Inl err \<Rightarrow> ((None, Some err), w1)
                | Inr convBucket \<Rightarrow> ((Some \<lparr>GetResp_Bucket = convBucket\<rparr>, None), w1))))"

subsection \<open>CreateBucket\<close>

definition CreateBucket ::
  "'w Endpoint \<Rightarrow> BucketCreateRequest \<Rightarrow> Time \<Rightarrow> 'w
    \<Rightarrow> (BucketCreateResponse option \<times> error option) \<times> 'w" where
  "CreateBucket endpoint req now w =
     (case validateAuth endpoint (CreateReq_Header req)
             \<lparr>Action_Op = ActionWrite, Action_Bucket = CreateReq_Name req, Action_Time = now\<rparr> of
        Inl err \<Rightarrow> ((None, Some err), w)
      | Inr keyInfo \<Rightarrow>
     (case validateBucket endpoint (CreateReq_Name req) of
        Some err \<Rightarrow> ((None, Some (Status InvalidArgument (ErrorText err))), w)
      | None \<Rightarrow>
     (case buckets_HasBucket endpoint (CreateReq_Name req) (KeyInfo_ProjectID keyInfo) w of
        (Inl err, w1) \<Rightarrow> ((None, Some (Status Internal (ErrorText err))), w1)
      | (Inr exists, w1) \<Rightarrow>
     if exists then
       (case ensureAttribution endpoint (CreateReq_Header req) keyInfo (CreateReq_Name req) w1 of
          (Some err, w2) \<Rightarrow> ((None, Some err), w2)
        | (None, w2) \<Rightarrow> ((None, Some (Status AlreadyExists (Text ''bucket already exists''))), w2))
     else
     (case projects_GetMaxBuckets endpoint (KeyInfo_ProjectID keyInfo) w1 of
        (Inl err, w2) \<Rightarrow> ((None, Some err), w2)
      | (Inr maxBucketsPtr, w2) \<Rightarrow>
     (let maxBuckets = (case maxBucketsPtr of None \<Rightarrow> MaxBuckets endpoint | Some m \<Rightarrow> m) in
     (case buckets_CountBuckets endpoint (KeyInfo_ProjectID keyInfo) w2 of
        (Inl err, w3) \<Rightarrow> ((None, Some err), w3)
      | (Inr bucketCount, w3) \<Rightarrow>
     if bucketCount \<ge> maxBuckets then
       ((None, Some (Status ResourceExhausted
          (FmtInt ''number of allocated buckets (%d) exceeded'' (MaxBuckets endpoint)))), w3)
     else
     (case convertProtoToBucket endpoint req (KeyInfo_ProjectID keyInfo) w3 of
        (Inl err, w4) \<Rightarrow> ((None, Some (Status InvalidArgument (ErrorText err))), w4)
      | (Inr bucketReq, w4) \<Rightarrow>
     (case buckets_CreateBucket endpoint bucketReq w4 of
        (Inl err, w5) \<Rightarrow> ((None, Some (Status Internal (Text ''unable to create bucket''))), w5)
      | (Inr bucket, w5) \<Rightarrow>
     (case ensureAttribution endpoint (CreateReq_Header req) keyInfo (CreateReq_Name req) w5 of
        (Some err, w6) \<Rightarrow> ((None, Some err), w6)
      | (None, w6) \<Rightarrow>
     (case convertBucketToProto \<lparr>Bucket_Name = Name bucket, Bucket_CreatedAt = Created bucket\<rparr>
             (defaultRS endpoint) (MaxSegmentSize endpoint) of
        Inl err \<Rightarrow> ((None, Some (Status Internal (Text ''unable to create bucket''))), w6)
      | Inr convBucket \<Rightarrow> ((Some \<lparr>CreateResp_Bucket = convBucket\<rparr>, None), w6)))))))))))"

subsection \<open>DeleteBucket\<close>

text \<open>\<^verbatim>\<open>isBucketEmpty\<close>: the metabase's answer, its error wrapped in the package's class.\<close>

definition isBucketEmpty :: "'w Endpoint \<Rightarrow> UUID \<Rightarrow> bytes \<Rightarrow> 'w \<Rightarrow> (error + bool) \<times> 'w" where
  "isBucketEmpty endpoint projectID bucketName w =
     (case metabase_BucketEmpty endpoint projectID bucketName w of
        (Inl err, w1) \<Rightarrow> (Inl (Wrap MetainfoError err), w1)
      | (Inr empty', w1) \<Rightarrow> (Inr empty', w1))"

text \<open>\<^verbatim>\<open>deleteBucket\<close>: removes the record of a bucket that is empty.\<close>

definition deleteBucket :: "'w Endpoint \<Rightarrow> bytes \<Rightarrow> UUID \<Rightarrow> 'w \<Rightarrow> error option \<times> 'w" where
  "deleteBucket endpoint bucketName projectID w =
     (case isBucketEmpty endpoint projectID bucketName w of
        (Inl err, w1) \<Rightarrow> (Some err, w1)
      | (Inr empty', w1) \<Rightarrow>
          if \<not> empty' then (Some (ClassNew ErrBucketNotEmpty ''''), w1)
          else buckets_DeleteBucket endpoint bucketName projectID w1)"

text \<open>
  The \<^verbatim>\<open>DeletePieces\<close> callback that \<^verbatim>\<open>deleteBucketObjects\<close> hands to the metabase:
  it passes the segments on to \<^verbatim>\<open>deleteSegmentPieces\<close>, which returns nothing, and
  returns \<^verbatim>\<open>nil\<close>.
\<close>

definition DeletePieces ::
  "'w Endpoint \<Rightarrow> DeletedSegmentInfo list \<Rightarrow> 'w \<Rightarrow> error option \<times> 'w" where
  "DeletePieces endpoint deleted w = (None, deleteSegmentPieces endpoint deleted w)"

text \<open>
  \<^verbatim>\<open>deleteBucketObjects\<close>. Its caller reads the count only when the error is
  \<^verbatim>\<open>nil\<close>, so the pair of the source is a sum here.
\<close>

definition deleteBucketObjects ::
  "'w Endpoint \<Rightarrow> UUID \<Rightarrow> bytes \<Rightarrow> 'w \<Rightarrow> (error + int64) \<times> 'w" where
  "deleteBucketObjects endpoint projectID bucketName w =
     (let bucketLocation = \<lparr>Loc_ProjectID = projectID, Loc_BucketName = bucketName\<rparr> in
      case metabase_DeleteBucketObjects endpoint bucketLocation (DeletePieces endpoint) w of
        (Inl err, w1) \<Rightarrow> (Inl (Wrap MetainfoError err), w1)
      | (Inr deletedObjects, w1) \<Rightarrow> (Inr deletedObjects, w1))"

text \<open>
  \<^verbatim>\<open>deleteBucketNotEmpty\<close> returns three values, the name, a count and the error, and
  it returns a count beside an error too.
\<close>

definition deleteBucketNotEmpty ::
  "'w Endpoint \<Rightarrow> UUID \<Rightarrow> bytes \<Rightarrow> 'w \<Rightarrow> (bytes option \<times> int64 \<times> error option) \<times> 'w" where
  "deleteBucketNotEmpty endpoint projectID bucketName w =
     (case deleteBucketObjects endpoint projectID bucketName w of
        (Inl err, w1) \<Rightarrow> ((None, 0, Some (Status Internal (ErrorText err))), w1)
      | (Inr deletedCount, w1) \<Rightarrow>
          (case deleteBucket endpoint bucketName projectID w1 of
             (Some err, w2) \<Rightarrow>
               if Has ErrBucketNotEmpty err then
                 ((None, deletedCount, Some (Status FailedPrecondition (Text
                    ''cannot delete the bucket because it's being used by another process''))), w2)
               else if Has ErrBucketNotFound err then ((Some bucketName, 0, None), w2)
               else ((None, deletedCount, Some (Status Internal (ErrorText err))), w2)
           | (None, w2) \<Rightarrow> ((Some bucketName, deletedCount, None), w2)))"

text \<open>
  The three permissions \<^verbatim>\<open>DeleteBucket\<close> asks for: Delete is mandatory, Read and List
  are optional and set \<^verbatim>\<open>canRead\<close> and \<^verbatim>\<open>canList\<close>.
\<close>

definition deletePermissions :: "bytes \<Rightarrow> Time \<Rightarrow> verifyPermission list" where
  "deletePermissions name now =
     [\<lparr>action = \<lparr>Action_Op = ActionDelete, Action_Bucket = name, Action_Time = now\<rparr>,
        optional = False\<rparr>,
      \<lparr>action = \<lparr>Action_Op = ActionRead, Action_Bucket = name, Action_Time = now\<rparr>,
        optional = True\<rparr>,
      \<lparr>action = \<lparr>Action_Op = ActionList, Action_Bucket = name, Action_Time = now\<rparr>,
        optional = True\<rparr>]"

text \<open>
  \<^verbatim>\<open>DeleteBucket\<close>. The branch under \<^verbatim>\<open>canRead || canList\<close> either returns
  (\<open>Inl\<close>) or sets \<^verbatim>\<open>convBucket\<close> (\<open>Inr\<close>); without the branch \<^verbatim>\<open>convBucket\<close>
  stays \<^verbatim>\<open>nil\<close>. \<^verbatim>\<open>&pb.BucketDeleteResponse{}\<close> has no bucket and the count 0,
  as has every response literal for a field it does not set.
\<close>

definition DeleteBucket ::
  "'w Endpoint \<Rightarrow> BucketDeleteRequest \<Rightarrow> Time \<Rightarrow> 'w
    \<Rightarrow> (BucketDeleteResponse option \<times> error option) \<times> 'w" where
  "DeleteBucket endpoint req now w =
     (case validateAuthN endpoint (DeleteReq_Header req) (deletePermissions (DeleteReq_Name req) now) of
        Inl err \<Rightarrow> ((None, Some err), w)
      | Inr (keyInfo, flags) \<Rightarrow>
     (let canRead = flags ! 1; canList = flags ! 2 in
     (case validateBucket endpoint (DeleteReq_Name req) of
        Some err \<Rightarrow> ((None, Some (Status InvalidArgument (ErrorText err))), w)
      | None \<Rightarrow>
     (case
        (if canRead \<or> canList then
           (case buckets_GetMinimalBucket endpoint (DeleteReq_Name req) (KeyInfo_ProjectID keyInfo) w of
              (Inl err, w1) \<Rightarrow>
                if Has ErrBucketNotFound err
                then Inl ((None, Some (Status NotFound (ErrorText err))), w1)
                else Inl ((None, Some err), w1)
            | (Inr bucket, w1) \<Rightarrow>
                (case convertBucketToProto bucket (defaultRS endpoint) (MaxSegmentSize endpoint) of
                   Inl err \<Rightarrow> Inl ((None, Some err), w1)
                 | Inr convBucket \<Rightarrow> Inr (convBucket, w1)))
         else Inr (None, w)) of
        Inl returned \<Rightarrow> returned
      | Inr (convBucket, w1) \<Rightarrow>
     (case deleteBucket endpoint (DeleteReq_Name req) (KeyInfo_ProjectID keyInfo) w1 of
        (Some err, w2) \<Rightarrow>
          if \<not> canRead \<and> \<not> canList then
            ((Some \<lparr>DeleteResp_Bucket = None, DeleteResp_DeletedObjectsCount = 0\<rparr>, None), w2)
          else if Has ErrBucketNotEmpty err then
            (if (if \<not> DeleteReq_DeleteAll req then True else \<not> canList) then
               ((None, Some (Status FailedPrecondition (ErrorText err))), w2)
             else
               (case deleteBucketNotEmpty endpoint (KeyInfo_ProjectID keyInfo) (DeleteReq_Name req) w2 of
                  ((name, deletedObjCount, Some err'), w3) \<Rightarrow> ((None, Some err'), w3)
                | ((name, deletedObjCount, None), w3) \<Rightarrow>
                    ((Some \<lparr>DeleteResp_Bucket = convBucket,
                            DeleteResp_DeletedObjectsCount = deletedObjCount\<rparr>, None), w3)))
          else if Has ErrBucketNotFound err then
            ((Some \<lparr>DeleteResp_Bucket = convBucket, DeleteResp_DeletedObjectsCount = 0\<rparr>, None), w2)
          else ((None, Some (Status Internal (ErrorText err))), w2)
      | (None, w2) \<Rightarrow>
          ((Some \<lparr>DeleteResp_Bucket = convBucket, DeleteResp_DeletedObjectsCount = 0\<rparr>, None), w2))))))"

subsection \<open>ListBuckets and CountBuckets\<close>

text \<open>
  \<^verbatim>\<open>ListBuckets\<close>. The limit goes from \<^verbatim>\<open>int32\<close> to \<^verbatim>\<open>int\<close>, the direction
  from the \<^verbatim>\<open>int32\<close> of the wire to the \<^verbatim>\<open>int8\<close> of \<^verbatim>\<open>storj.ListDirection\<close>.
  The action has no bucket.
\<close>

definition ListBuckets ::
  "'w Endpoint \<Rightarrow> BucketListRequest \<Rightarrow> Time \<Rightarrow> 'w
    \<Rightarrow> (BucketListResponse option \<times> error option) \<times> 'w" where
  "ListBuckets endpoint req now w =
     (let act = \<lparr>Action_Op = ActionRead, Action_Bucket = [], Action_Time = now\<rparr> in
      case validateAuth endpoint (ListReq_Header req) act of
        Inl err \<Rightarrow> ((None, Some err), w)
      | Inr keyInfo \<Rightarrow>
     (case getAllowedBuckets endpoint (ListReq_Header req) act of
        Inl err \<Rightarrow> ((None, Some err), w)
      | Inr allowedBuckets \<Rightarrow>
     (let listOpts = \<lparr>Opts_Cursor = ListReq_Cursor req,
                      Opts_Limit = scast (ListReq_Limit req),
                      Opts_Direction = scast (ListReq_Direction req)\<rparr> in
      case buckets_ListBuckets endpoint (KeyInfo_ProjectID keyInfo) listOpts allowedBuckets w of
        (Inl err, w1) \<Rightarrow> ((None, Some err), w1)
      | (Inr bucketList, w1) \<Rightarrow>
          ((Some \<lparr>ListResp_Items =
                    map (\<lambda>item. \<lparr>Item_Name = Name item, Item_CreatedAt = Created item\<rparr>)
                      (List_Items bucketList),
                  ListResp_More = List_More bucketList\<rparr>, None), w1))))"

definition CountBuckets :: "'w Endpoint \<Rightarrow> UUID \<Rightarrow> 'w \<Rightarrow> (error + int) \<times> 'w" where
  "CountBuckets endpoint projectID w =
     (case buckets_CountBuckets endpoint projectID w of
        (Inl err, w1) \<Rightarrow> (Inl err, w1)
      | (Inr count, w1) \<Rightarrow> (Inr count, w1))"

subsection \<open>An in-memory stand-in for the collaborators\<close>

text \<open>
  To run the endpoint on concrete requests, the collaborators are instantiated with a
  small store: the catalogue as a list of records, the number of live objects of each
  bucket, the per-project limits, a clock and a counter for fresh identifiers. It does
  what a test double of the Go interfaces would do. The general theorems quantify over
  every collaborator; the store serves the concrete runs: the instances of those
  theorems and the evaluations of the code at one input.
\<close>

record Store =
  catalog :: "storj_Bucket list"
  objects :: "UUID \<times> string \<Rightarrow> nat"
  limits :: "UUID \<Rightarrow> int option"
  clock :: Time
  nextID :: nat

text \<open>
  What else happens while a request drains a bucket: nothing, a failure of the metabase
  before anything is deleted, another request that removes the bucket record, or another
  request that uploads an object into the bucket.
\<close>

datatype Scenario = Quiet | MetabaseFails | ConcurrentDelete | ConcurrentUpload

definition is_bucket :: "UUID \<Rightarrow> string \<Rightarrow> storj_Bucket \<Rightarrow> bool" where
  "is_bucket projectID name b = (ProjectID b = projectID \<and> Name b = name)"

definition mem_GetMinimalBucket :: "bytes \<Rightarrow> UUID \<Rightarrow> Store \<Rightarrow> (error + Bucket) \<times> Store" where
  "mem_GetMinimalBucket name projectID w =
     (case find (is_bucket projectID name) (catalog w) of
        None \<Rightarrow> (Inl (ClassNew ErrBucketNotFound name), w)
      | Some b \<Rightarrow> (Inr \<lparr>Bucket_Name = Name b, Bucket_CreatedAt = Created b\<rparr>, w))"

definition mem_HasBucket :: "bytes \<Rightarrow> UUID \<Rightarrow> Store \<Rightarrow> (error + bool) \<times> Store" where
  "mem_HasBucket name projectID w = (Inr (list_ex (is_bucket projectID name) (catalog w)), w)"

definition mem_CountBuckets :: "UUID \<Rightarrow> Store \<Rightarrow> (error + int) \<times> Store" where
  "mem_CountBuckets projectID w =
     (Inr (int (length (filter (\<lambda>b. ProjectID b = projectID) (catalog w)))), w)"

definition mem_CreateBucket :: "storj_Bucket \<Rightarrow> Store \<Rightarrow> (error + storj_Bucket) \<times> Store" where
  "mem_CreateBucket bucket w =
     (if list_ex (is_bucket (ProjectID bucket) (Name bucket)) (catalog w)
      then (Inl (External ''bucket already exists''), w)
      else (Inr (bucket\<lparr>Created := clock w\<rparr>),
            w\<lparr>catalog := bucket\<lparr>Created := clock w\<rparr> # catalog w\<rparr>))"

definition mem_DeleteBucket :: "bytes \<Rightarrow> UUID \<Rightarrow> Store \<Rightarrow> error option \<times> Store" where
  "mem_DeleteBucket name projectID w =
     (if list_ex (is_bucket projectID name) (catalog w)
      then (None, w\<lparr>catalog := filter (\<lambda>b. \<not> is_bucket projectID name b) (catalog w)\<rparr>)
      else (Some (ClassNew ErrBucketNotFound name), w))"

text \<open>The first page of the project's buckets that the credential allows.\<close>

definition mem_ListBuckets ::
  "UUID \<Rightarrow> BucketListOptions \<Rightarrow> AllowedBuckets \<Rightarrow> Store \<Rightarrow> (error + BucketList) \<times> Store" where
  "mem_ListBuckets projectID listOpts allowedBuckets w =
     (let visible = filter (\<lambda>b. ProjectID b = projectID \<and>
                        (Allowed_All allowedBuckets \<or> Name b \<in> Allowed_Buckets allowedBuckets))
                      (catalog w);
          limit = nat (sint (Opts_Limit listOpts))
      in (Inr \<lparr>List_More = (limit < length visible), List_Items = take limit visible\<rparr>, w))"

definition mem_BucketEmpty :: "UUID \<Rightarrow> string \<Rightarrow> Store \<Rightarrow> (error + bool) \<times> Store" where
  "mem_BucketEmpty projectID name w = (Inr (objects w (projectID, name) = 0), w)"

text \<open>
  The drain deletes every object of the bucket, hands one segment per object to the
  callback and stops when the callback reports an error. The scenario says what else
  has happened by the time it returns.
\<close>

definition mem_DeleteBucketObjects ::
  "Scenario \<Rightarrow> BucketLocation \<Rightarrow> (DeletedSegmentInfo list \<Rightarrow> Store \<Rightarrow> error option \<times> Store)
    \<Rightarrow> Store \<Rightarrow> (error + int64) \<times> Store" where
  "mem_DeleteBucketObjects scenario loc deletePieces w =
     (let k = (Loc_ProjectID loc, Loc_BucketName loc); n = objects w k in
      if scenario = MetabaseFails then (Inl (External ''metabase unavailable''), w)
      else
        (case deletePieces (replicate n \<lparr>RootPieceID = [], Pieces = []\<rparr>)
                (w\<lparr>objects := (objects w)(k := 0)\<rparr>) of
           (Some err, w1) \<Rightarrow> (Inl err, w1)
         | (None, w1) \<Rightarrow>
             (Inr (of_nat n),
              (case scenario of
                 ConcurrentDelete \<Rightarrow>
                   w1\<lparr>catalog := filter (\<lambda>b. \<not> is_bucket (fst k) (snd k) b) (catalog w1)\<rparr>
               | ConcurrentUpload \<Rightarrow> w1\<lparr>objects := (objects w1)(k := 1)\<rparr>
               | _ \<Rightarrow> w1))))"

text \<open>A key of project 1 that permits the listed operations on every bucket at any time.\<close>

definition key_for :: "ActionType list \<Rightarrow> APIKey" where
  "key_for ops =
     \<lparr>Key_Info = \<lparr>KeyInfo_ProjectID = 1\<rparr>,
      Check = (\<lambda>a. if Action_Op a \<in> set ops then None else Some (External ''action disallowed'')),
      GetAllowedBuckets = (\<lambda>a. Inr \<lparr>Allowed_All = True, Allowed_Buckets = {}\<rparr>)\<rparr>"

text \<open>
  The endpoint over the store. The header \<open>''key''\<close> carries the key of the given
  operations; a name is accepted when its length is between 3 and 63; a partner id is
  understood only if it is \<open>''partner-1''\<close>, and a failed parse leaves the receiver as it
  was; the project limit is two buckets.
\<close>

definition mem_endpoint :: "ActionType list \<Rightarrow> Scenario \<Rightarrow> Store Endpoint" where
  "mem_endpoint ops scenario =
     \<lparr>MaxSegmentSize = 67108864,
      MaxBuckets = 2,
      defaultRS = \<lparr>RS_Type = 0, MinReq = 29, Total = 80, RepairThreshold = 35,
                   SuccessThreshold = 80, ErasureShareSize = 256\<rparr>,
      getAPIKey = (\<lambda>header. if ApiKey header = ''key'' then Inr (key_for ops)
                     else Inl (External ''invalid api key'')),
      validateBucket = (\<lambda>name. if 3 \<le> length name \<and> length name \<le> 63 then None
                          else Some (External ''bucket name must be 3 to 63 characters'')),
      ensureAttribution = (\<lambda>header keyInfo name w. (None, w)),
      deleteSegmentPieces = (\<lambda>deleted w. w),
      buckets_GetMinimalBucket = mem_GetMinimalBucket,
      buckets_HasBucket = mem_HasBucket,
      buckets_CountBuckets = mem_CountBuckets,
      buckets_CreateBucket = mem_CreateBucket,
      buckets_DeleteBucket = mem_DeleteBucket,
      buckets_ListBuckets = mem_ListBuckets,
      projects_GetMaxBuckets = (\<lambda>projectID w. (Inr (limits w projectID), w)),
      metabase_BucketEmpty = mem_BucketEmpty,
      metabase_DeleteBucketObjects = mem_DeleteBucketObjects scenario,
      uuid_New = (\<lambda>w. (Inr (of_nat (nextID w)), w\<lparr>nextID := Suc (nextID w)\<rparr>)),
      uuid_UnmarshalJSON = (\<lambda>u text. if text = ''partner-1'' then (1, None)
                              else (u, Some (External ''invalid uuid text'')))\<rparr>"

text \<open>Bucket \<open>''cakes''\<close> of project 1, created at time 10.\<close>

definition cakes :: storj_Bucket where
  "cakes = \<lparr>ID = 7, Name = ''cakes'', ProjectID = 1, PartnerID = 0, Created = 10,
            PathCipher = ENC_NULL, DefaultSegmentsSize = 1024,
            DefaultRedundancyScheme = \<lparr>RS_Type = 0, MinReq = 2, Total = 4, RepairThreshold = 3,
              SuccessThreshold = 4, ErasureShareSize = 512\<rparr>,
            DefaultEncryptionParameters = \<lparr>CipherSuite = ENC_SECRETBOX, BlockSize = 4096\<rparr>\<rparr>"

text \<open>A store that holds \<open>cakes\<close> with \<open>n\<close> objects and nothing else.\<close>

definition store_with :: "nat \<Rightarrow> Store" where
  "store_with n =
     \<lparr>catalog = [cakes], objects = (\<lambda>k. if k = (1, ''cakes'') then n else 0),
      limits = (\<lambda>p. None), clock = 20, nextID = 8\<rparr>"

definition header :: RequestHeader where
  "header = \<lparr>ApiKey = ''key'', UserAgent = ''uplink''\<rparr>"

definition delete_cakes :: "bool \<Rightarrow> BucketDeleteRequest" where
  "delete_cakes deleteAll =
     \<lparr>DeleteReq_Header = header, DeleteReq_Name = ''cakes'', DeleteReq_DeleteAll = deleteAll\<rparr>"

definition get_cakes :: BucketGetRequest where
  "get_cakes = \<lparr>GetReq_Header = header, GetReq_Name = ''cakes''\<rparr>"

text \<open>
  A request to create \<open>''pies''\<close> in which the client asks for a cipher, a segment size,
  a redundancy scheme and encryption parameters of its own, with the given partner id.
\<close>

definition create_pies :: "bytes \<Rightarrow> BucketCreateRequest" where
  "create_pies partnerId =
     \<lparr>CreateReq_Header = header, CreateReq_Name = ''pies'',
      CreateReq_PathCipher = ENC_SECRETBOX, CreateReq_PartnerId = partnerId,
      CreateReq_DefaultSegmentSize = 4096,
      CreateReq_DefaultRedundancyScheme = Some \<lparr>RS_Type = 0, MinReq = 1, Total = 2,
        RepairThreshold = 1, SuccessThreshold = 2, ErasureShareSize = 64\<rparr>,
      CreateReq_DefaultEncryptionParameters =
        Some \<lparr>CipherSuite = ENC_SECRETBOX, BlockSize = 128\<rparr>\<rparr>"

definition list_first_page :: BucketListRequest where
  "list_first_page =
     \<lparr>ListReq_Header = header, ListReq_Cursor = [], ListReq_Limit = 10, ListReq_Direction = 2\<rparr>"

subsection \<open>Notions the statements use\<close>

text \<open>The action on a bucket at a time, as the endpoints build it.\<close>

abbreviation Act :: "ActionType \<Rightarrow> bytes \<Rightarrow> Time \<Rightarrow> Action" where
  "Act op name now \<equiv> \<lparr>Action_Op = op, Action_Bucket = name, Action_Time = now\<rparr>"

text \<open>
  A wire bucket carries the system-wide defaults: the AES-GCM cipher, the configured
  segment size, the configured redundancy scheme, and encryption parameters with the
  AES-GCM cipher and the block size that the scheme gives.
\<close>

definition carries_defaults :: "RedundancyScheme \<Rightarrow> int64 \<Rightarrow> pb_Bucket \<Rightarrow> bool" where
  "carries_defaults rs maxSegmentSize b =
     (pb_PathCipher b = ENC_AESGCM \<and>
      pb_DefaultSegmentSize b = maxSegmentSize \<and>
      pb_DefaultRedundancyScheme b = Some rs \<and>
      pb_DefaultEncryptionParameters b =
        Some \<lparr>CipherSuite = ENC_AESGCM, BlockSize = scast (ErasureShareSize rs * MinReq rs)\<rparr>)"

section \<open>Properties\<close>

subsection \<open>Auxiliary facts\<close>

lemmas mem_defs = mem_endpoint_def key_for_def store_with_def cakes_def header_def
  mem_GetMinimalBucket_def mem_HasBucket_def mem_CountBuckets_def mem_CreateBucket_def
  mem_DeleteBucket_def mem_ListBuckets_def mem_BucketEmpty_def mem_DeleteBucketObjects_def
  is_bucket_def permitted_def Let_def

lemmas delete_defs = DeleteBucket_def validateAuthN_def deletePermissions_def
  convertBucketToProto_def deleteBucket_def isBucketEmpty_def deleteBucketNotEmpty_def
  deleteBucketObjects_def DeletePieces_def

lemma Has_Wrap: "Has k (Wrap c e) = (k = c \<or> Has k e)"
  by (cases e) auto

text \<open>What the gate answers to the three permissions of \<open>DeleteBucket\<close>.\<close>

lemma validateAuthN_delete:
  assumes "getAPIKey ep h = Inr key"
  shows "validateAuthN ep h (deletePermissions name now) =
           (if permitted key (Act ActionDelete name now)
            then Inr (Key_Info key, [True, permitted key (Act ActionRead name now),
                                     permitted key (Act ActionList name now)])
            else Inl (Denied Forbidden))"
  using assms by (simp add: validateAuthN_def deletePermissions_def)

lemma validateAuth_eq:
  "validateAuth ep h a =
     (case getAPIKey ep h of Inl err \<Rightarrow> Inl (Denied InvalidCredential)
      | Inr key \<Rightarrow> if permitted key a then Inr (Key_Info key) else Inl (Denied Forbidden))"
  by (simp add: validateAuth_def validateAuthN_def split: sum.splits)

lemma convertBucketToProto_Inr:
  "convertBucketToProto bucket rs m = Inl err \<Longrightarrow> False"
  by (simp add: convertBucketToProto_def split: if_splits)

lemma convertBucketToProto_defaults:
  "convertBucketToProto bucket rs m = Inr (Some pb) \<Longrightarrow> carries_defaults rs m pb"
  by (auto simp add: convertBucketToProto_def carries_defaults_def split: if_splits)

subsection \<open>Deleting without Read and List permission\<close>

text \<open>
  C8. A credential that permits Delete on the bucket and neither Read nor List, a name that
  passes validation: whatever the internal deletion step \<open>deleteBucket\<close> returns, an
  error of any kind or none, \<open>DeleteBucket\<close> answers with the empty response and no
  error, and the world is the one \<open>deleteBucket\<close> left. The answer after a failed delete
  is the answer after a successful one.
\<close>

theorem DeleteBucket_swallows_failure:
  assumes key: "getAPIKey ep (DeleteReq_Header req) = Inr key"
    and del: "permitted key (Act ActionDelete (DeleteReq_Name req) now)"
    and nr: "\<not> permitted key (Act ActionRead (DeleteReq_Name req) now)"
    and nl: "\<not> permitted key (Act ActionList (DeleteReq_Name req) now)"
    and name: "validateBucket ep (DeleteReq_Name req) = None"
  shows "DeleteBucket ep req now w =
           ((Some \<lparr>DeleteResp_Bucket = None, DeleteResp_DeletedObjectsCount = 0\<rparr>, None),
            snd (deleteBucket ep (DeleteReq_Name req) (KeyInfo_ProjectID (Key_Info key)) w))"
  using del nr nl name
  by (simp add: DeleteBucket_def validateAuthN_delete [OF key] split: prod.splits option.splits)

text \<open>
  The instance: a key that permits Delete only, the bucket \<open>''cakes''\<close> with three
  objects. The internal step fails because the bucket is not empty, the store is as it
  was, and the response is the empty success.
\<close>

theorem DeleteBucket_swallows_failure_witness:
  "fst (deleteBucket (mem_endpoint [ActionDelete] Quiet) ''cakes'' 1 (store_with 3))
     = Some (ClassNew ErrBucketNotEmpty '''')
   \<and> DeleteBucket (mem_endpoint [ActionDelete] Quiet) (delete_cakes True) 30 (store_with 3) =
       ((Some \<lparr>DeleteResp_Bucket = None, DeleteResp_DeletedObjectsCount = 0\<rparr>, None),
        store_with 3)"
proof -
  let ?ep = "mem_endpoint [ActionDelete] Quiet"
  have key: "getAPIKey ?ep (DeleteReq_Header (delete_cakes True)) = Inr (key_for [ActionDelete])"
    by (simp add: mem_defs delete_cakes_def)
  have del: "permitted (key_for [ActionDelete]) (Act ActionDelete (DeleteReq_Name (delete_cakes True)) 30)"
    by (simp add: mem_defs delete_cakes_def)
  have nr: "\<not> permitted (key_for [ActionDelete]) (Act ActionRead (DeleteReq_Name (delete_cakes True)) 30)"
    by (simp add: mem_defs delete_cakes_def)
  have nl: "\<not> permitted (key_for [ActionDelete]) (Act ActionList (DeleteReq_Name (delete_cakes True)) 30)"
    by (simp add: mem_defs delete_cakes_def)
  have name: "validateBucket ?ep (DeleteReq_Name (delete_cakes True)) = None"
    by (simp add: mem_defs delete_cakes_def)
  have step: "deleteBucket ?ep ''cakes'' 1 (store_with 3)
                = (Some (ClassNew ErrBucketNotEmpty ''''), store_with 3)"
    by (simp add: mem_defs delete_cakes_def deleteBucket_def isBucketEmpty_def)
  from DeleteBucket_swallows_failure [OF key del nr nl name, of "store_with 3"] step
  show ?thesis by (simp add: mem_defs delete_cakes_def)
qed

text \<open>
  C7. A credential that permits neither Read nor List on the bucket: whatever
  \<open>DeleteBucket\<close> returns, a response that it returns has no bucket in it. Where it
  returns an error the response is \<^verbatim>\<open>nil\<close>.
\<close>

theorem DeleteBucket_withholds_bucket:
  assumes key: "getAPIKey ep (DeleteReq_Header req) = Inr key"
    and nr: "\<not> permitted key (Act ActionRead (DeleteReq_Name req) now)"
    and nl: "\<not> permitted key (Act ActionList (DeleteReq_Name req) now)"
  shows "case fst (fst (DeleteBucket ep req now w)) of
           None \<Rightarrow> True
         | Some resp \<Rightarrow> DeleteResp_Bucket resp = None"
  using nr nl
  by (simp add: DeleteBucket_def validateAuthN_delete [OF key] split: prod.splits option.splits)

text \<open>
  The instance: the same key deletes the empty bucket \<open>''cakes''\<close>. The record is
  removed and the response names no bucket.
\<close>

theorem DeleteBucket_withholds_bucket_witness:
  "fst (DeleteBucket (mem_endpoint [ActionDelete] Quiet) (delete_cakes False) 30 (store_with 0)) =
     (Some \<lparr>DeleteResp_Bucket = None, DeleteResp_DeletedObjectsCount = 0\<rparr>, None)
   \<and> catalog (snd (DeleteBucket (mem_endpoint [ActionDelete] Quiet) (delete_cakes False) 30
        (store_with 0))) = []"
proof -
  let ?ep = "mem_endpoint [ActionDelete] Quiet"
  have key: "getAPIKey ?ep (DeleteReq_Header (delete_cakes False)) = Inr (key_for [ActionDelete])"
    by (simp add: mem_defs delete_cakes_def)
  have nr: "\<not> permitted (key_for [ActionDelete]) (Act ActionRead (DeleteReq_Name (delete_cakes False)) 30)"
    by (simp add: mem_defs delete_cakes_def)
  have nl: "\<not> permitted (key_for [ActionDelete]) (Act ActionList (DeleteReq_Name (delete_cakes False)) 30)"
    by (simp add: mem_defs delete_cakes_def)
  have run: "DeleteBucket ?ep (delete_cakes False) 30 (store_with 0) =
               ((Some \<lparr>DeleteResp_Bucket = None, DeleteResp_DeletedObjectsCount = 0\<rparr>, None),
                (store_with 0)\<lparr>catalog := []\<rparr>)"
    by (simp add: mem_defs delete_cakes_def delete_defs)
  from DeleteBucket_withholds_bucket [OF key nr nl, of "store_with 0"] run
  show ?thesis by simp
qed

subsection \<open>Deleting a bucket that is not empty\<close>

text \<open>
  C4. A credential that permits Delete and at least one of Read and List, a valid name, a
  bucket that the catalogue knows and the metabase reports as not empty. If the request
  does not ask to delete all objects, or the credential does not permit List, then
  \<open>DeleteBucket\<close> fails with \<open>FailedPrecondition\<close>, and the world it leaves is \<open>w2\<close>,
  the world after the two reads (the catalogue lookup and the emptiness check): neither
  the catalogue's delete nor the metabase's drain has been applied to it.
\<close>

theorem DeleteBucket_not_empty_refused:
  assumes key: "getAPIKey ep (DeleteReq_Header req) = Inr key"
    and del: "permitted key (Act ActionDelete (DeleteReq_Name req) now)"
    and surfaced: "permitted key (Act ActionRead (DeleteReq_Name req) now) \<or>
                   permitted key (Act ActionList (DeleteReq_Name req) now)"
    and unforced: "\<not> DeleteReq_DeleteAll req \<or>
                   \<not> permitted key (Act ActionList (DeleteReq_Name req) now)"
    and name: "validateBucket ep (DeleteReq_Name req) = None"
    and get: "buckets_GetMinimalBucket ep (DeleteReq_Name req) (KeyInfo_ProjectID (Key_Info key)) w
                = (Inr bucket, w1)"
    and nonempty: "metabase_BucketEmpty ep (KeyInfo_ProjectID (Key_Info key)) (DeleteReq_Name req) w1
                = (Inr False, w2)"
  shows "DeleteBucket ep req now w =
           ((None, Some (Status FailedPrecondition (ErrorText (ClassNew ErrBucketNotEmpty '''')))),
            w2)"
  using del surfaced unforced name get nonempty
  by (auto simp add: DeleteBucket_def validateAuthN_delete [OF key] convertBucketToProto_def
        deleteBucket_def isBucketEmpty_def split: prod.splits option.splits)

text \<open>
  The instances: \<open>''cakes''\<close> with three objects; a key with every permission and a
  request without \<open>deleteAll\<close>, and a key without List and a request with
  \<open>deleteAll\<close>. The reads of the store change nothing, so the store after each call
  is the store before it: the record and the three objects are still there.
\<close>

theorem DeleteBucket_not_empty_refused_witness:
  "DeleteBucket (mem_endpoint [ActionDelete, ActionRead, ActionList] Quiet) (delete_cakes False)
      30 (store_with 3) =
     ((None, Some (Status FailedPrecondition (ErrorText (ClassNew ErrBucketNotEmpty '''')))),
      store_with 3)
   \<and> DeleteBucket (mem_endpoint [ActionDelete, ActionRead] Quiet) (delete_cakes True)
      30 (store_with 3) =
     ((None, Some (Status FailedPrecondition (ErrorText (ClassNew ErrBucketNotEmpty '''')))),
      store_with 3)
   \<and> catalog (store_with 3) = [cakes] \<and> objects (store_with 3) (1, ''cakes'') = 3"
proof -
  have key: "getAPIKey (mem_endpoint ops Quiet) (DeleteReq_Header (delete_cakes a))
               = Inr (key_for ops)" for ops a
    by (simp add: mem_defs delete_cakes_def)
  have del: "permitted (key_for (ActionDelete # ops))
               (Act ActionDelete (DeleteReq_Name (delete_cakes a)) 30)" for ops a
    by (simp add: mem_defs delete_cakes_def)
  have surfaced: "permitted (key_for (ActionDelete # ActionRead # ops))
                    (Act ActionRead (DeleteReq_Name (delete_cakes a)) 30) \<or>
                  permitted (key_for (ActionDelete # ActionRead # ops))
                    (Act ActionList (DeleteReq_Name (delete_cakes a)) 30)" for ops a
    by (simp add: mem_defs delete_cakes_def)
  have not_all: "\<not> DeleteReq_DeleteAll (delete_cakes False) \<or>
                 \<not> permitted (key_for [ActionDelete, ActionRead, ActionList])
                     (Act ActionList (DeleteReq_Name (delete_cakes False)) 30)"
    by (simp add: mem_defs delete_cakes_def)
  have no_list: "\<not> DeleteReq_DeleteAll (delete_cakes True) \<or>
                 \<not> permitted (key_for [ActionDelete, ActionRead])
                     (Act ActionList (DeleteReq_Name (delete_cakes True)) 30)"
    by (simp add: mem_defs delete_cakes_def)
  have name: "validateBucket (mem_endpoint ops Quiet) (DeleteReq_Name (delete_cakes a)) = None"
    for ops a
    by (simp add: mem_defs delete_cakes_def)
  have get: "buckets_GetMinimalBucket (mem_endpoint ops Quiet) (DeleteReq_Name (delete_cakes a))
               (KeyInfo_ProjectID (Key_Info (key_for ops))) (store_with 3)
               = (Inr \<lparr>Bucket_Name = ''cakes'', Bucket_CreatedAt = 10\<rparr>, store_with 3)" for ops a
    by (simp add: mem_defs delete_cakes_def)
  have nonempty: "metabase_BucketEmpty (mem_endpoint ops Quiet)
               (KeyInfo_ProjectID (Key_Info (key_for ops)))
               (DeleteReq_Name (delete_cakes a)) (store_with 3) = (Inr False, store_with 3)"
    for ops a
    by (simp add: mem_defs delete_cakes_def)
  from DeleteBucket_not_empty_refused [OF key del surfaced not_all name get nonempty]
       DeleteBucket_not_empty_refused [OF key del surfaced no_list name get nonempty]
  show ?thesis by (simp add: store_with_def)
qed

subsection \<open>Forced deletion\<close>

text \<open>
  A forced deletion is the path of \<open>DeleteBucket\<close> on which the credential permits
  Delete and List, the request asks to delete all objects, and the first call of
  \<open>deleteBucket\<close> reports the bucket as not empty. On it \<open>DeleteBucket\<close> hands over to
  \<open>deleteBucketNotEmpty\<close>, passes on its error if it has one and drops the count then,
  and otherwise answers with the bucket converted before and the count.
\<close>

lemma DeleteBucket_forced:
  assumes key: "getAPIKey ep (DeleteReq_Header req) = Inr key"
    and del: "permitted key (Act ActionDelete (DeleteReq_Name req) now)"
    and list: "permitted key (Act ActionList (DeleteReq_Name req) now)"
    and force: "DeleteReq_DeleteAll req"
    and name: "validateBucket ep (DeleteReq_Name req) = None"
    and get: "buckets_GetMinimalBucket ep (DeleteReq_Name req) (KeyInfo_ProjectID (Key_Info key)) w
                = (Inr bucket, w1)"
    and conv: "convertBucketToProto bucket (defaultRS ep) (MaxSegmentSize ep) = Inr convBucket"
    and first: "deleteBucket ep (DeleteReq_Name req) (KeyInfo_ProjectID (Key_Info key)) w1
                = (Some err, w2)"
    and nonempty: "Has ErrBucketNotEmpty err"
  shows "DeleteBucket ep req now w =
           (case deleteBucketNotEmpty ep (KeyInfo_ProjectID (Key_Info key)) (DeleteReq_Name req) w2 of
              ((nm, cnt, Some err'), w3) \<Rightarrow> ((None, Some err'), w3)
            | ((nm, cnt, None), w3) \<Rightarrow>
                ((Some \<lparr>DeleteResp_Bucket = convBucket, DeleteResp_DeletedObjectsCount = cnt\<rparr>,
                  None), w3))"
  using del list force name get conv first nonempty
  by (simp add: DeleteBucket_def validateAuthN_delete [OF key])

text \<open>What \<open>deleteBucketNotEmpty\<close> returns once the walk over the objects has completed.\<close>

lemma deleteBucketNotEmpty_drained:
  assumes "deleteBucketObjects ep projectID name w = (Inr n, w1)"
    and "deleteBucket ep name projectID w1 = (r, w2)"
  shows "deleteBucketNotEmpty ep projectID name w =
           (case r of
              None \<Rightarrow> ((Some name, n, None), w2)
            | Some err \<Rightarrow>
                if Has ErrBucketNotEmpty err then
                  ((None, n, Some (Status FailedPrecondition (Text
                     ''cannot delete the bucket because it's being used by another process''))), w2)
                else if Has ErrBucketNotFound err then ((Some name, 0, None), w2)
                else ((None, n, Some (Status Internal (ErrorText err))), w2))"
  using assms by (simp add: deleteBucketNotEmpty_def split: option.splits)

text \<open>
  The walk completes with \<open>n\<close> deleted objects, then the record delete reports that the
  bucket is not found: for every collaborator \<open>deleteBucketNotEmpty\<close> returns the name,
  no error and the count 0, and \<open>DeleteBucket\<close> answers with the count 0.
\<close>

lemma deleteBucketNotEmpty_record_gone:
  assumes key: "getAPIKey ep (DeleteReq_Header req) = Inr key"
    and del: "permitted key (Act ActionDelete (DeleteReq_Name req) now)"
    and list: "permitted key (Act ActionList (DeleteReq_Name req) now)"
    and force: "DeleteReq_DeleteAll req"
    and name: "validateBucket ep (DeleteReq_Name req) = None"
    and get: "buckets_GetMinimalBucket ep (DeleteReq_Name req) (KeyInfo_ProjectID (Key_Info key)) w
                = (Inr bucket, w1)"
    and conv: "convertBucketToProto bucket (defaultRS ep) (MaxSegmentSize ep) = Inr convBucket"
    and first: "deleteBucket ep (DeleteReq_Name req) (KeyInfo_ProjectID (Key_Info key)) w1
                = (Some err, w2)"
    and nonempty: "Has ErrBucketNotEmpty err"
    and walk: "deleteBucketObjects ep (KeyInfo_ProjectID (Key_Info key)) (DeleteReq_Name req) w2
                = (Inr n, w3)"
    and second: "deleteBucket ep (DeleteReq_Name req) (KeyInfo_ProjectID (Key_Info key)) w3
                = (Some err', w4)"
    and gone: "Has ErrBucketNotFound err'" "\<not> Has ErrBucketNotEmpty err'"
  shows "deleteBucketNotEmpty ep (KeyInfo_ProjectID (Key_Info key)) (DeleteReq_Name req) w2 =
           ((Some (DeleteReq_Name req), 0, None), w4)
         \<and> DeleteBucket ep req now w =
           ((Some \<lparr>DeleteResp_Bucket = convBucket, DeleteResp_DeletedObjectsCount = 0\<rparr>, None),
            w4)"
proof -
  have drained:
    "deleteBucketNotEmpty ep (KeyInfo_ProjectID (Key_Info key)) (DeleteReq_Name req) w2 =
       ((Some (DeleteReq_Name req), 0, None), w4)"
    using deleteBucketNotEmpty_drained [OF walk second] gone by simp
  show ?thesis
    using DeleteBucket_forced [OF key del list force name get conv first nonempty] drained
    by simp
qed

text \<open>
  C1. The claim is that a forced deletion whose walk completes and whose record delete
  then reports NotFound succeeds and reports the count of the walk. The code succeeds
  and reports 0. Here \<open>''cakes''\<close> holds three objects and another request removes the
  bucket record while the walk runs: the walk returns 3, \<open>deleteBucketNotEmpty\<close> returns
  the name with the count 0, and the response of \<open>DeleteBucket\<close> carries the bucket
  fetched before and \<open>DeletedObjectsCount = 0\<close>.
\<close>

theorem forced_delete_record_gone_reports_zero:
  "fst (deleteBucketObjects (mem_endpoint [ActionDelete, ActionRead, ActionList] ConcurrentDelete)
          1 ''cakes'' (store_with 3)) = Inr 3
   \<and> fst (deleteBucketNotEmpty (mem_endpoint [ActionDelete, ActionRead, ActionList] ConcurrentDelete)
          1 ''cakes'' (store_with 3)) = (Some ''cakes'', 0, None)
   \<and> fst (DeleteBucket (mem_endpoint [ActionDelete, ActionRead, ActionList] ConcurrentDelete)
          (delete_cakes True) 30 (store_with 3)) =
       (Some \<lparr>DeleteResp_Bucket = Some \<lparr>pb_Name = ''cakes'', pb_PathCipher = ENC_AESGCM,
                  pb_CreatedAt = 10, pb_DefaultSegmentSize = 67108864,
                  pb_DefaultRedundancyScheme = Some \<lparr>RS_Type = 0, MinReq = 29, Total = 80,
                    RepairThreshold = 35, SuccessThreshold = 80, ErasureShareSize = 256\<rparr>,
                  pb_DefaultEncryptionParameters =
                    Some \<lparr>CipherSuite = ENC_AESGCM, BlockSize = 7424\<rparr>\<rparr>,
               DeleteResp_DeletedObjectsCount = 0\<rparr>, None)"
  by (simp add: mem_defs delete_cakes_def delete_defs)

text \<open>
  C2, as amended. In a forced deletion whose walk completes with \<open>n\<close> deleted objects and
  whose record delete then reports the bucket as not empty again,
  \<open>deleteBucketNotEmpty\<close> returns the \<open>FailedPrecondition\<close> error together with the
  count \<open>n\<close> to \<open>DeleteBucket\<close>, and \<open>DeleteBucket\<close> returns that error with a
  \<^verbatim>\<open>nil\<close> response: its caller gets the retryable error and no count.
\<close>

theorem forced_delete_refilled_failed_precondition:
  assumes key: "getAPIKey ep (DeleteReq_Header req) = Inr key"
    and del: "permitted key (Act ActionDelete (DeleteReq_Name req) now)"
    and list: "permitted key (Act ActionList (DeleteReq_Name req) now)"
    and force: "DeleteReq_DeleteAll req"
    and name: "validateBucket ep (DeleteReq_Name req) = None"
    and get: "buckets_GetMinimalBucket ep (DeleteReq_Name req) (KeyInfo_ProjectID (Key_Info key)) w
                = (Inr bucket, w1)"
    and first: "deleteBucket ep (DeleteReq_Name req) (KeyInfo_ProjectID (Key_Info key)) w1
                = (Some err, w2)"
    and nonempty: "Has ErrBucketNotEmpty err"
    and walk: "deleteBucketObjects ep (KeyInfo_ProjectID (Key_Info key)) (DeleteReq_Name req) w2
                = (Inr n, w3)"
    and second: "deleteBucket ep (DeleteReq_Name req) (KeyInfo_ProjectID (Key_Info key)) w3
                = (Some err', w4)"
    and again: "Has ErrBucketNotEmpty err'"
  shows "deleteBucketNotEmpty ep (KeyInfo_ProjectID (Key_Info key)) (DeleteReq_Name req) w2 =
           ((None, n, Some (Status FailedPrecondition (Text
              ''cannot delete the bucket because it's being used by another process''))), w4)
         \<and> DeleteBucket ep req now w =
           ((None, Some (Status FailedPrecondition (Text
              ''cannot delete the bucket because it's being used by another process''))), w4)"
proof -
  obtain convBucket where conv:
    "convertBucketToProto bucket (defaultRS ep) (MaxSegmentSize ep) = Inr convBucket"
    by (cases "convertBucketToProto bucket (defaultRS ep) (MaxSegmentSize ep)")
       (auto dest: convertBucketToProto_Inr)
  have drained:
    "deleteBucketNotEmpty ep (KeyInfo_ProjectID (Key_Info key)) (DeleteReq_Name req) w2 =
       ((None, n, Some (Status FailedPrecondition (Text
          ''cannot delete the bucket because it's being used by another process''))), w4)"
    using deleteBucketNotEmpty_drained [OF walk second] again by simp
  show ?thesis
    using DeleteBucket_forced [OF key del list force name get conv first nonempty] drained
    by simp
qed

text \<open>
  The instance: \<open>''cakes''\<close> holds three objects and another request uploads an object
  while the walk runs. The bucket record stays, with the new object in the bucket.
\<close>

theorem forced_delete_refilled_witness:
  "fst (DeleteBucket (mem_endpoint [ActionDelete, ActionRead, ActionList] ConcurrentUpload)
          (delete_cakes True) 30 (store_with 3)) =
     (None, Some (Status FailedPrecondition (Text
        ''cannot delete the bucket because it's being used by another process'')))
   \<and> catalog (snd (DeleteBucket (mem_endpoint [ActionDelete, ActionRead, ActionList] ConcurrentUpload)
          (delete_cakes True) 30 (store_with 3))) = [cakes]
   \<and> objects (snd (DeleteBucket (mem_endpoint [ActionDelete, ActionRead, ActionList] ConcurrentUpload)
          (delete_cakes True) 30 (store_with 3))) (1, ''cakes'') = 1"
proof -
  let ?ops = "[ActionDelete, ActionRead, ActionList]"
  let ?ep = "mem_endpoint ?ops ConcurrentUpload"
  let ?req = "delete_cakes True"
  let ?w3 = "(store_with 3)\<lparr>objects := (objects (store_with 3))((1, ''cakes'') := 1)\<rparr>"
  have key: "getAPIKey ?ep (DeleteReq_Header ?req) = Inr (key_for ?ops)"
    by (simp add: mem_defs delete_cakes_def)
  have del: "permitted (key_for ?ops) (Act ActionDelete (DeleteReq_Name ?req) 30)"
    by (simp add: mem_defs delete_cakes_def)
  have list: "permitted (key_for ?ops) (Act ActionList (DeleteReq_Name ?req) 30)"
    by (simp add: mem_defs delete_cakes_def)
  have force: "DeleteReq_DeleteAll ?req"
    by (simp add: mem_defs delete_cakes_def)
  have name: "validateBucket ?ep (DeleteReq_Name ?req) = None"
    by (simp add: mem_defs delete_cakes_def)
  have get: "buckets_GetMinimalBucket ?ep (DeleteReq_Name ?req)
               (KeyInfo_ProjectID (Key_Info (key_for ?ops))) (store_with 3)
               = (Inr \<lparr>Bucket_Name = ''cakes'', Bucket_CreatedAt = 10\<rparr>, store_with 3)"
    by (simp add: mem_defs delete_cakes_def)
  have first: "deleteBucket ?ep (DeleteReq_Name ?req) (KeyInfo_ProjectID (Key_Info (key_for ?ops)))
               (store_with 3) = (Some (ClassNew ErrBucketNotEmpty ''''), store_with 3)"
    by (simp add: mem_defs delete_cakes_def deleteBucket_def isBucketEmpty_def)
  have nonempty: "Has ErrBucketNotEmpty (ClassNew ErrBucketNotEmpty '''')"
    by simp
  have walk: "deleteBucketObjects ?ep (KeyInfo_ProjectID (Key_Info (key_for ?ops)))
               (DeleteReq_Name ?req) (store_with 3) = (Inr 3, ?w3)"
    by (simp add: mem_defs delete_cakes_def deleteBucketObjects_def DeletePieces_def)
  have second: "deleteBucket ?ep (DeleteReq_Name ?req) (KeyInfo_ProjectID (Key_Info (key_for ?ops)))
               ?w3 = (Some (ClassNew ErrBucketNotEmpty ''''), ?w3)"
    by (simp add: mem_defs delete_cakes_def deleteBucket_def isBucketEmpty_def)
  from forced_delete_refilled_failed_precondition
         [OF key del list force name get first nonempty walk second nonempty]
  show ?thesis by (simp add: store_with_def)
qed

text \<open>
  The claim as stated fails on the same instance: the walk removed three objects, which
  \<open>deleteBucketNotEmpty\<close> returns beside the error, and the response of \<open>DeleteBucket\<close>
  that would carry a count is \<^verbatim>\<open>nil\<close>.
\<close>

theorem forced_delete_refilled_no_count:
  "fst (snd (fst (deleteBucketNotEmpty
          (mem_endpoint [ActionDelete, ActionRead, ActionList] ConcurrentUpload)
          1 ''cakes'' (store_with 3)))) = 3
   \<and> fst (fst (DeleteBucket (mem_endpoint [ActionDelete, ActionRead, ActionList] ConcurrentUpload)
          (delete_cakes True) 30 (store_with 3))) = None
   \<and> snd (fst (DeleteBucket (mem_endpoint [ActionDelete, ActionRead, ActionList] ConcurrentUpload)
          (delete_cakes True) 30 (store_with 3))) =
       Some (Status FailedPrecondition (Text
         ''cannot delete the bucket because it's being used by another process''))"
  by (simp add: mem_defs delete_cakes_def delete_defs)

text \<open>
  C6. In a forced deletion (the metabase has reported the bucket as not empty) the record
  delete comes after a drain that completed without error, and only then. If the drain
  returns an error, \<open>deleteBucketNotEmpty\<close> returns an \<open>Internal\<close> error with the
  count 0 and so does \<open>DeleteBucket\<close>, and the world is the one the drain left: nothing
  has run after the drain, the catalogue's delete has not been applied. If the drain
  completes, the world at the end is the one \<open>deleteBucket\<close> leaves when it starts from
  the world the drain left. The \<open>DeletePieces\<close> callback that the drain is given
  returns no error, whatever \<open>deleteSegmentPieces\<close> does with the segments.
\<close>

theorem drain_precedes_record_delete:
  assumes key: "getAPIKey ep (DeleteReq_Header req) = Inr key"
    and del: "permitted key (Act ActionDelete (DeleteReq_Name req) now)"
    and list: "permitted key (Act ActionList (DeleteReq_Name req) now)"
    and force: "DeleteReq_DeleteAll req"
    and name: "validateBucket ep (DeleteReq_Name req) = None"
    and get: "buckets_GetMinimalBucket ep (DeleteReq_Name req) (KeyInfo_ProjectID (Key_Info key)) w
                = (Inr bucket, w1)"
    and nonempty: "metabase_BucketEmpty ep (KeyInfo_ProjectID (Key_Info key)) (DeleteReq_Name req) w1
                = (Inr False, w2)"
  shows "(metabase_DeleteBucketObjects ep
            \<lparr>Loc_ProjectID = KeyInfo_ProjectID (Key_Info key), Loc_BucketName = DeleteReq_Name req\<rparr>
            (DeletePieces ep) w2 = (Inl err, w3) \<longrightarrow>
          deleteBucketNotEmpty ep (KeyInfo_ProjectID (Key_Info key)) (DeleteReq_Name req) w2 =
            ((None, 0, Some (Status Internal (ErrorText (Wrap MetainfoError err)))), w3) \<and>
          DeleteBucket ep req now w =
            ((None, Some (Status Internal (ErrorText (Wrap MetainfoError err)))), w3))
         \<and> (metabase_DeleteBucketObjects ep
            \<lparr>Loc_ProjectID = KeyInfo_ProjectID (Key_Info key), Loc_BucketName = DeleteReq_Name req\<rparr>
            (DeletePieces ep) w2 = (Inr n, w3') \<longrightarrow>
          snd (deleteBucketNotEmpty ep (KeyInfo_ProjectID (Key_Info key)) (DeleteReq_Name req) w2) =
            snd (deleteBucket ep (DeleteReq_Name req) (KeyInfo_ProjectID (Key_Info key)) w3') \<and>
          snd (DeleteBucket ep req now w) =
            snd (deleteBucket ep (DeleteReq_Name req) (KeyInfo_ProjectID (Key_Info key)) w3'))
         \<and> fst (DeletePieces ep deleted v) = None"
proof -
  obtain convBucket where conv:
    "convertBucketToProto bucket (defaultRS ep) (MaxSegmentSize ep) = Inr convBucket"
    by (cases "convertBucketToProto bucket (defaultRS ep) (MaxSegmentSize ep)")
       (auto dest: convertBucketToProto_Inr)
  have first: "deleteBucket ep (DeleteReq_Name req) (KeyInfo_ProjectID (Key_Info key)) w1 =
                 (Some (ClassNew ErrBucketNotEmpty ''''), w2)"
    using nonempty by (simp add: deleteBucket_def isBucketEmpty_def)
  note forced = DeleteBucket_forced [OF key del list force name get conv first]
  have failing:
    "deleteBucketNotEmpty ep (KeyInfo_ProjectID (Key_Info key)) (DeleteReq_Name req) w2 =
       ((None, 0, Some (Status Internal (ErrorText (Wrap MetainfoError err)))), w3) \<and>
     DeleteBucket ep req now w =
       ((None, Some (Status Internal (ErrorText (Wrap MetainfoError err)))), w3)"
    if "metabase_DeleteBucketObjects ep
          \<lparr>Loc_ProjectID = KeyInfo_ProjectID (Key_Info key), Loc_BucketName = DeleteReq_Name req\<rparr>
          (DeletePieces ep) w2 = (Inl err, w3)"
    using that forced by (simp add: deleteBucketNotEmpty_def deleteBucketObjects_def)
  have completing:
    "snd (deleteBucketNotEmpty ep (KeyInfo_ProjectID (Key_Info key)) (DeleteReq_Name req) w2) =
       snd (deleteBucket ep (DeleteReq_Name req) (KeyInfo_ProjectID (Key_Info key)) w3') \<and>
     snd (DeleteBucket ep req now w) =
       snd (deleteBucket ep (DeleteReq_Name req) (KeyInfo_ProjectID (Key_Info key)) w3')"
    if "metabase_DeleteBucketObjects ep
          \<lparr>Loc_ProjectID = KeyInfo_ProjectID (Key_Info key), Loc_BucketName = DeleteReq_Name req\<rparr>
          (DeletePieces ep) w2 = (Inr n, w3')"
  proof -
    have walk: "deleteBucketObjects ep (KeyInfo_ProjectID (Key_Info key)) (DeleteReq_Name req) w2
                  = (Inr n, w3')"
      using that by (simp add: deleteBucketObjects_def)
    obtain r w4 where second:
      "deleteBucket ep (DeleteReq_Name req) (KeyInfo_ProjectID (Key_Info key)) w3' = (r, w4)"
      by (cases "deleteBucket ep (DeleteReq_Name req) (KeyInfo_ProjectID (Key_Info key)) w3'")
    have "snd (deleteBucketNotEmpty ep (KeyInfo_ProjectID (Key_Info key)) (DeleteReq_Name req) w2)
            = w4"
      by (simp add: deleteBucketNotEmpty_drained [OF walk second] split: option.splits)
    moreover from this have "snd (DeleteBucket ep req now w) = w4"
      by (auto simp add: forced split: prod.splits option.splits)
    ultimately show ?thesis
      by (simp add: second)
  qed
  from failing completing show ?thesis
    by (simp add: DeletePieces_def)
qed

text \<open>
  The instances. When the metabase fails before it deletes anything, the record of
  \<open>''cakes''\<close> is in the catalogue after the call, and its three objects are there.
  When nothing interferes, the three objects are deleted and then the record.
\<close>

theorem drain_precedes_record_delete_witness:
  "DeleteBucket (mem_endpoint [ActionDelete, ActionRead, ActionList] MetabaseFails)
      (delete_cakes True) 30 (store_with 3) =
     ((None, Some (Status Internal (ErrorText
        (ClassWrap MetainfoError (External ''metabase unavailable''))))), store_with 3)
   \<and> catalog (store_with 3) = [cakes]
   \<and> catalog (snd (DeleteBucket (mem_endpoint [ActionDelete, ActionRead, ActionList] Quiet)
        (delete_cakes True) 30 (store_with 3))) = []
   \<and> objects (snd (DeleteBucket (mem_endpoint [ActionDelete, ActionRead, ActionList] Quiet)
        (delete_cakes True) 30 (store_with 3))) (1, ''cakes'') = 0
   \<and> fst (DeletePieces (mem_endpoint [ActionDelete, ActionRead, ActionList] MetabaseFails)
        [\<lparr>RootPieceID = ''root'', Pieces = [(0, ''node'')]\<rparr>] (store_with 3)) = None"
proof -
  let ?ops = "[ActionDelete, ActionRead, ActionList]"
  let ?req = "delete_cakes True"
  let ?drained = "(store_with 3)\<lparr>objects := (objects (store_with 3))((1, ''cakes'') := 0)\<rparr>"
  have key: "getAPIKey (mem_endpoint ?ops s) (DeleteReq_Header ?req) = Inr (key_for ?ops)" for s
    by (simp add: mem_defs delete_cakes_def)
  have del: "permitted (key_for ?ops) (Act ActionDelete (DeleteReq_Name ?req) 30)"
    by (simp add: mem_defs delete_cakes_def)
  have list: "permitted (key_for ?ops) (Act ActionList (DeleteReq_Name ?req) 30)"
    by (simp add: mem_defs delete_cakes_def)
  have force: "DeleteReq_DeleteAll ?req"
    by (simp add: mem_defs delete_cakes_def)
  have name: "validateBucket (mem_endpoint ?ops s) (DeleteReq_Name ?req) = None" for s
    by (simp add: mem_defs delete_cakes_def)
  have get: "buckets_GetMinimalBucket (mem_endpoint ?ops s) (DeleteReq_Name ?req)
               (KeyInfo_ProjectID (Key_Info (key_for ?ops))) (store_with 3)
               = (Inr \<lparr>Bucket_Name = ''cakes'', Bucket_CreatedAt = 10\<rparr>, store_with 3)" for s
    by (simp add: mem_defs delete_cakes_def)
  have nonempty: "metabase_BucketEmpty (mem_endpoint ?ops s)
               (KeyInfo_ProjectID (Key_Info (key_for ?ops)))
               (DeleteReq_Name ?req) (store_with 3) = (Inr False, store_with 3)" for s
    by (simp add: mem_defs delete_cakes_def)
  have fails: "metabase_DeleteBucketObjects (mem_endpoint ?ops MetabaseFails)
                 \<lparr>Loc_ProjectID = KeyInfo_ProjectID (Key_Info (key_for ?ops)),
                  Loc_BucketName = DeleteReq_Name ?req\<rparr>
                 (DeletePieces (mem_endpoint ?ops MetabaseFails)) (store_with 3)
               = (Inl (External ''metabase unavailable''), store_with 3)"
    by (simp add: mem_defs delete_cakes_def)
  have completes: "metabase_DeleteBucketObjects (mem_endpoint ?ops Quiet)
                 \<lparr>Loc_ProjectID = KeyInfo_ProjectID (Key_Info (key_for ?ops)),
                  Loc_BucketName = DeleteReq_Name ?req\<rparr>
                 (DeletePieces (mem_endpoint ?ops Quiet)) (store_with 3)
               = (Inr 3, ?drained)"
    by (simp add: mem_defs delete_cakes_def DeletePieces_def)
  have then_record: "snd (deleteBucket (mem_endpoint ?ops Quiet) (DeleteReq_Name ?req)
                 (KeyInfo_ProjectID (Key_Info (key_for ?ops))) ?drained)
               = ?drained\<lparr>catalog := []\<rparr>"
    by (simp add: mem_defs delete_cakes_def deleteBucket_def isBucketEmpty_def)
  from drain_precedes_record_delete
         [where err = "External ''metabase unavailable''" and ?w3.0 = "store_with 3"
            and deleted = "[\<lparr>RootPieceID = ''root'', Pieces = [(0, ''node'')]\<rparr>]"
            and v = "store_with 3",
          OF key del list force name get nonempty]
       drain_precedes_record_delete
         [where n = 3 and w3' = ?drained, OF key del list force name get nonempty]
       fails completes then_record
  show ?thesis by (simp add: store_with_def)
qed

subsection \<open>The wire representation of a bucket\<close>

lemma GetBucket_found:
  assumes "validateAuth ep (GetReq_Header req) (Act ActionRead (GetReq_Name req) now) = Inr keyInfo"
    and "buckets_GetMinimalBucket ep (GetReq_Name req) (KeyInfo_ProjectID keyInfo) w = (Inr bucket, w1)"
  shows "GetBucket ep req now w =
           (case convertBucketToProto bucket (defaultRS ep) (MaxSegmentSize ep) of
              Inl err \<Rightarrow> ((None, Some err), w1)
            | Inr convBucket \<Rightarrow> ((Some \<lparr>GetResp_Bucket = convBucket\<rparr>, None), w1))"
  using assms by (simp add: GetBucket_def)

text \<open>The bucket of a create response is a conversion with the endpoint's defaults.\<close>

lemma CreateBucket_response:
  assumes "fst (CreateBucket ep req now w) = (Some resp, None)"
  shows "\<exists>bucket. convertBucketToProto bucket (defaultRS ep) (MaxSegmentSize ep)
           = Inr (CreateResp_Bucket resp)"
  using assms
  by (auto simp add: CreateBucket_def Let_def
        split: sum.splits option.splits prod.splits if_splits)

text \<open>
  C3. A bucket record with a non-empty name is converted to a wire bucket with the
  record's name and creation time and with the defaults: AES-GCM, the given segment size,
  the given redundancy scheme. \<open>GetBucket\<close>, for an authorized request and a record the
  catalogue returns, answers with such a bucket made from the endpoint's configuration.
  A response of \<open>CreateBucket\<close>, whatever the request asked for and whatever the
  catalogue stored and returned, carries either no bucket or one with the defaults of
  the endpoint's configuration.
\<close>

theorem wire_bucket_carries_defaults:
  "(Bucket_Name bucket \<noteq> [] \<longrightarrow>
      (\<exists>pb. convertBucketToProto bucket rs maxSegmentSize = Inr (Some pb) \<and>
            pb_Name pb = Bucket_Name bucket \<and> pb_CreatedAt pb = Bucket_CreatedAt bucket \<and>
            carries_defaults rs maxSegmentSize pb))
   \<and> (validateAuth ep (GetReq_Header req) (Act ActionRead (GetReq_Name req) now) = Inr keyInfo \<and>
       buckets_GetMinimalBucket ep (GetReq_Name req) (KeyInfo_ProjectID keyInfo) w = (Inr bucket, w1) \<and>
       Bucket_Name bucket \<noteq> [] \<longrightarrow>
      (\<exists>pb. GetBucket ep req now w = ((Some \<lparr>GetResp_Bucket = Some pb\<rparr>, None), w1) \<and>
            pb_Name pb = Bucket_Name bucket \<and>
            carries_defaults (defaultRS ep) (MaxSegmentSize ep) pb))
   \<and> (fst (CreateBucket ep creq now w') = (Some resp, None) \<longrightarrow>
      (case CreateResp_Bucket resp of
         None \<Rightarrow> True
       | Some pb \<Rightarrow> carries_defaults (defaultRS ep) (MaxSegmentSize ep) pb))"
proof (intro conjI impI)
  assume "Bucket_Name bucket \<noteq> []"
  then show "\<exists>pb. convertBucketToProto bucket rs maxSegmentSize = Inr (Some pb) \<and>
            pb_Name pb = Bucket_Name bucket \<and> pb_CreatedAt pb = Bucket_CreatedAt bucket \<and>
            carries_defaults rs maxSegmentSize pb"
    by (simp add: convertBucketToProto_def carries_defaults_def)
next
  assume found:
    "validateAuth ep (GetReq_Header req) (Act ActionRead (GetReq_Name req) now) = Inr keyInfo \<and>
     buckets_GetMinimalBucket ep (GetReq_Name req) (KeyInfo_ProjectID keyInfo) w = (Inr bucket, w1) \<and>
     Bucket_Name bucket \<noteq> []"
  then have "GetBucket ep req now w =
           (case convertBucketToProto bucket (defaultRS ep) (MaxSegmentSize ep) of
              Inl err \<Rightarrow> ((None, Some err), w1)
            | Inr convBucket \<Rightarrow> ((Some \<lparr>GetResp_Bucket = convBucket\<rparr>, None), w1))"
    by (simp add: GetBucket_found)
  with found show "\<exists>pb. GetBucket ep req now w = ((Some \<lparr>GetResp_Bucket = Some pb\<rparr>, None), w1) \<and>
            pb_Name pb = Bucket_Name bucket \<and>
            carries_defaults (defaultRS ep) (MaxSegmentSize ep) pb"
    by (simp add: convertBucketToProto_def carries_defaults_def)
next
  assume created: "fst (CreateBucket ep creq now w') = (Some resp, None)"
  from CreateBucket_response [OF created] obtain b where
    "convertBucketToProto b (defaultRS ep) (MaxSegmentSize ep) = Inr (CreateResp_Bucket resp)"
    by blast
  then show "case CreateResp_Bucket resp of
         None \<Rightarrow> True
       | Some pb \<Rightarrow> carries_defaults (defaultRS ep) (MaxSegmentSize ep) pb"
    by (auto split: option.splits dest: convertBucketToProto_defaults)
qed

text \<open>
  The instance: \<open>''cakes''\<close> is stored with the null cipher, a segment size of 1024 and a
  2-of-4 scheme; \<open>''pies''\<close> is requested with the secretbox cipher, a segment size of
  4096 and a 1-of-2 scheme. Both come back with AES-GCM, 67108864 and the 29-of-80
  scheme of the configuration.
\<close>

theorem wire_bucket_carries_defaults_witness:
  "fst (GetBucket (mem_endpoint [ActionRead, ActionWrite] Quiet) get_cakes 30 (store_with 0)) =
     (Some \<lparr>GetResp_Bucket = Some \<lparr>pb_Name = ''cakes'', pb_PathCipher = ENC_AESGCM,
        pb_CreatedAt = 10, pb_DefaultSegmentSize = 67108864,
        pb_DefaultRedundancyScheme = Some \<lparr>RS_Type = 0, MinReq = 29, Total = 80,
          RepairThreshold = 35, SuccessThreshold = 80, ErasureShareSize = 256\<rparr>,
        pb_DefaultEncryptionParameters =
          Some \<lparr>CipherSuite = ENC_AESGCM, BlockSize = 7424\<rparr>\<rparr>\<rparr>, None)
   \<and> fst (CreateBucket (mem_endpoint [ActionRead, ActionWrite] Quiet) (create_pies [])
            30 (store_with 0)) =
     (Some \<lparr>CreateResp_Bucket = Some \<lparr>pb_Name = ''pies'', pb_PathCipher = ENC_AESGCM,
        pb_CreatedAt = 20, pb_DefaultSegmentSize = 67108864,
        pb_DefaultRedundancyScheme = Some \<lparr>RS_Type = 0, MinReq = 29, Total = 80,
          RepairThreshold = 35, SuccessThreshold = 80, ErasureShareSize = 256\<rparr>,
        pb_DefaultEncryptionParameters =
          Some \<lparr>CipherSuite = ENC_AESGCM, BlockSize = 7424\<rparr>\<rparr>\<rparr>, None)"
proof -
  let ?ep = "mem_endpoint [ActionRead, ActionWrite] Quiet"
  let ?rs = "\<lparr>RS_Type = 0, MinReq = 29, Total = 80, RepairThreshold = 35,
              SuccessThreshold = 80, ErasureShareSize = 256\<rparr>"
  let ?pies = "\<lparr>pb_Name = ''pies'', pb_PathCipher = ENC_AESGCM,
        pb_CreatedAt = 20, pb_DefaultSegmentSize = 67108864,
        pb_DefaultRedundancyScheme = Some ?rs,
        pb_DefaultEncryptionParameters = Some \<lparr>CipherSuite = ENC_AESGCM, BlockSize = 7424\<rparr>\<rparr>"
  have auth: "validateAuth ?ep (GetReq_Header get_cakes) (Act ActionRead (GetReq_Name get_cakes) 30)
                = Inr \<lparr>KeyInfo_ProjectID = 1\<rparr>"
    by (simp add: mem_defs get_cakes_def create_pies_def validateAuth_eq)
  have get: "buckets_GetMinimalBucket ?ep (GetReq_Name get_cakes)
               (KeyInfo_ProjectID \<lparr>KeyInfo_ProjectID = 1\<rparr>) (store_with 0)
               = (Inr \<lparr>Bucket_Name = ''cakes'', Bucket_CreatedAt = 10\<rparr>, store_with 0)"
    by (simp add: mem_defs get_cakes_def create_pies_def)
  have named: "Bucket_Name \<lparr>Bucket_Name = ''cakes'', Bucket_CreatedAt = 10\<rparr> \<noteq> []"
    by simp
  have created: "fst (CreateBucket ?ep (create_pies []) 30 (store_with 0))
                   = (Some \<lparr>CreateResp_Bucket = Some ?pies\<rparr>, None)"
    by (simp add: mem_defs get_cakes_def create_pies_def CreateBucket_def validateAuth_eq convertProtoToBucket_def
          convertBucketToProto_def IsZero_def)
  have fetched: "fst (GetBucket ?ep get_cakes 30 (store_with 0)) =
     (Some \<lparr>GetResp_Bucket = Some \<lparr>pb_Name = ''cakes'', pb_PathCipher = ENC_AESGCM,
        pb_CreatedAt = 10, pb_DefaultSegmentSize = 67108864,
        pb_DefaultRedundancyScheme = Some ?rs,
        pb_DefaultEncryptionParameters =
          Some \<lparr>CipherSuite = ENC_AESGCM, BlockSize = 7424\<rparr>\<rparr>\<rparr>, None)"
    by (simp add: mem_defs get_cakes_def create_pies_def GetBucket_def validateAuth_eq convertBucketToProto_def)
  from wire_bucket_carries_defaults
         [where bucket = "\<lparr>Bucket_Name = ''cakes'', Bucket_CreatedAt = 10\<rparr>" and rs = ?rs
            and maxSegmentSize = 67108864 and ep = ?ep and req = get_cakes and now = 30
            and keyInfo = "\<lparr>KeyInfo_ProjectID = 1\<rparr>" and w = "store_with 0"
            and ?w1.0 = "store_with 0" and creq = "create_pies []" and w' = "store_with 0"
            and resp = "\<lparr>CreateResp_Bucket = Some ?pies\<rparr>"]
       auth get named created fetched
  show ?thesis
    by simp
qed

subsection \<open>The bucket limit of a project\<close>

text \<open>
  \<open>CreateBucket\<close> from the limit check on, for a request that has passed authorization,
  name validation and the check that the bucket does not exist yet.
\<close>

lemma CreateBucket_quota:
  assumes auth: "validateAuth ep (CreateReq_Header req)
                   (Act ActionWrite (CreateReq_Name req) now) = Inr keyInfo"
    and name: "validateBucket ep (CreateReq_Name req) = None"
    and fresh: "buckets_HasBucket ep (CreateReq_Name req) (KeyInfo_ProjectID keyInfo) w = (Inr False, w1)"
    and limit: "projects_GetMaxBuckets ep (KeyInfo_ProjectID keyInfo) w1 = (Inr override, w2)"
    and count: "buckets_CountBuckets ep (KeyInfo_ProjectID keyInfo) w2 = (Inr bucketCount, w3)"
  shows "CreateBucket ep req now w =
     (if bucketCount \<ge> (case override of None \<Rightarrow> MaxBuckets ep | Some m \<Rightarrow> m) then
       ((None, Some (Status ResourceExhausted
          (FmtInt ''number of allocated buckets (%d) exceeded'' (MaxBuckets ep)))), w3)
     else
     (case convertProtoToBucket ep req (KeyInfo_ProjectID keyInfo) w3 of
        (Inl err, w4) \<Rightarrow> ((None, Some (Status InvalidArgument (ErrorText err))), w4)
      | (Inr bucketReq, w4) \<Rightarrow>
     (case buckets_CreateBucket ep bucketReq w4 of
        (Inl err, w5) \<Rightarrow> ((None, Some (Status Internal (Text ''unable to create bucket''))), w5)
      | (Inr bucket, w5) \<Rightarrow>
     (case ensureAttribution ep (CreateReq_Header req) keyInfo (CreateReq_Name req) w5 of
        (Some err, w6) \<Rightarrow> ((None, Some err), w6)
      | (None, w6) \<Rightarrow>
     (case convertBucketToProto \<lparr>Bucket_Name = Name bucket, Bucket_CreatedAt = Created bucket\<rparr>
             (defaultRS ep) (MaxSegmentSize ep) of
        Inl err \<Rightarrow> ((None, Some (Status Internal (Text ''unable to create bucket''))), w6)
      | Inr convBucket \<Rightarrow> ((Some \<lparr>CreateResp_Bucket = convBucket\<rparr>, None), w6))))))"
  using assms by (simp add: CreateBucket_def Let_def)

text \<open>
  C5. A request to create a bucket has passed authorization, name validation and the
  uniqueness check, and the project settings and the catalogue have answered with the
  project's override (if any) and its bucket count. Then \<open>CreateBucket\<close> fails with the
  code \<open>ResourceExhausted\<close> if and only if the count is at least the effective maximum,
  which is the override when there is one and the configured default otherwise. When it
  does, the world is \<open>w3\<close>, the world after these reads: the check comes before the
  insertion. The attribution bookkeeping, which runs after the insertion and whose
  error is passed on as it is, is taken not to fail with that code itself.
\<close>

theorem CreateBucket_quota_check:
  assumes auth: "validateAuth ep (CreateReq_Header req)
                   (Act ActionWrite (CreateReq_Name req) now) = Inr keyInfo"
    and name: "validateBucket ep (CreateReq_Name req) = None"
    and fresh: "buckets_HasBucket ep (CreateReq_Name req) (KeyInfo_ProjectID keyInfo) w = (Inr False, w1)"
    and limit: "projects_GetMaxBuckets ep (KeyInfo_ProjectID keyInfo) w1 = (Inr override, w2)"
    and count: "buckets_CountBuckets ep (KeyInfo_ProjectID keyInfo) w2 = (Inr bucketCount, w3)"
    and attribution: "\<And>v err v'. ensureAttribution ep (CreateReq_Header req) keyInfo
                         (CreateReq_Name req) v = (Some err, v') \<Longrightarrow> Code err \<noteq> ResourceExhausted"
  shows "((\<exists>err. snd (fst (CreateBucket ep req now w)) = Some err \<and> Code err = ResourceExhausted)
            \<longleftrightarrow> bucketCount \<ge> (case override of None \<Rightarrow> MaxBuckets ep | Some m \<Rightarrow> m))
         \<and> (bucketCount \<ge> (case override of None \<Rightarrow> MaxBuckets ep | Some m \<Rightarrow> m) \<longrightarrow>
              CreateBucket ep req now w =
                ((None, Some (Status ResourceExhausted
                   (FmtInt ''number of allocated buckets (%d) exceeded'' (MaxBuckets ep)))), w3))"
proof (cases "bucketCount \<ge> (case override of None \<Rightarrow> MaxBuckets ep | Some m \<Rightarrow> m)")
  case True
  then show ?thesis
    by (simp add: CreateBucket_quota [OF auth name fresh limit count])
next
  case False
  have "Code err \<noteq> ResourceExhausted" if "snd (fst (CreateBucket ep req now w)) = Some err" for err
    using that False attribution
    by (auto simp add: CreateBucket_quota [OF auth name fresh limit count]
          split: prod.splits sum.splits option.splits)
  with False show ?thesis by auto
qed

text \<open>
  The instance: project 1 has one bucket. With an override of 1 the request is refused,
  the store is unchanged, and the message names the configured default 2. Without an
  override the default 2 applies and the request is not refused.
\<close>

theorem CreateBucket_quota_check_witness:
  "CreateBucket (mem_endpoint [ActionWrite] Quiet) (create_pies []) 30
      ((store_with 0)\<lparr>limits := (\<lambda>p. Some 1)\<rparr>) =
     ((None, Some (Status ResourceExhausted
        (FmtInt ''number of allocated buckets (%d) exceeded'' 2))),
      (store_with 0)\<lparr>limits := (\<lambda>p. Some 1)\<rparr>)
   \<and> snd (fst (CreateBucket (mem_endpoint [ActionWrite] Quiet) (create_pies []) 30
        (store_with 0))) = None"
proof -
  let ?ep = "mem_endpoint [ActionWrite] Quiet"
  let ?req = "create_pies []"
  let ?k = "\<lparr>KeyInfo_ProjectID = 1\<rparr>"
  let ?w = "(store_with 0)\<lparr>limits := (\<lambda>p. Some 1)\<rparr>"
  have auth: "validateAuth ?ep (CreateReq_Header ?req) (Act ActionWrite (CreateReq_Name ?req) 30)
                = Inr ?k"
    by (simp add: mem_defs create_pies_def validateAuth_eq)
  have name: "validateBucket ?ep (CreateReq_Name ?req) = None"
    by (simp add: mem_defs create_pies_def)
  have fresh: "buckets_HasBucket ?ep (CreateReq_Name ?req) (KeyInfo_ProjectID ?k) ?w = (Inr False, ?w)"
    by (simp add: mem_defs create_pies_def)
  have limit: "projects_GetMaxBuckets ?ep (KeyInfo_ProjectID ?k) ?w = (Inr (Some 1), ?w)"
    by (simp add: mem_defs create_pies_def)
  have count: "buckets_CountBuckets ?ep (KeyInfo_ProjectID ?k) ?w = (Inr 1, ?w)"
    by (simp add: mem_defs create_pies_def)
  have fresh': "buckets_HasBucket ?ep (CreateReq_Name ?req) (KeyInfo_ProjectID ?k) (store_with 0)
                  = (Inr False, store_with 0)"
    by (simp add: mem_defs create_pies_def)
  have limit': "projects_GetMaxBuckets ?ep (KeyInfo_ProjectID ?k) (store_with 0)
                  = (Inr None, store_with 0)"
    by (simp add: mem_defs create_pies_def)
  have count': "buckets_CountBuckets ?ep (KeyInfo_ProjectID ?k) (store_with 0)
                  = (Inr 1, store_with 0)"
    by (simp add: mem_defs create_pies_def)
  have attribution: "Code err \<noteq> ResourceExhausted"
    if "ensureAttribution ?ep (CreateReq_Header ?req) ?k (CreateReq_Name ?req) v = (Some err, v')"
    for v err v'
    using that by (simp add: mem_defs create_pies_def)
  have default: "MaxBuckets ?ep = 2"
    by (simp add: mem_defs create_pies_def)
  have created: "snd (fst (CreateBucket ?ep ?req 30 (store_with 0))) = None"
    by (simp add: mem_defs create_pies_def CreateBucket_def validateAuth_eq convertProtoToBucket_def
          convertBucketToProto_def IsZero_def)
  from CreateBucket_quota_check [OF auth name fresh limit count attribution]
       CreateBucket_quota_check [OF auth name fresh' limit' count' attribution]
       default created
  show ?thesis by simp
qed

subsection \<open>The partner id of a create request\<close>

lemma convertProtoToBucket_eq:
  assumes "uuid_New ep v = (Inr bucketID, v1)"
    and "uuid_UnmarshalJSON ep 0 (CreateReq_PartnerId req) = (partnerID, perr)"
  shows "convertProtoToBucket ep req projectID v =
           (if perr \<noteq> None \<and> \<not> IsZero partnerID then (Inl (ErrsNew ''Invalid uuid''), v1)
            else (Inr \<lparr>ID = bucketID, Name = CreateReq_Name req, ProjectID = projectID,
                       PartnerID = partnerID, Created = 0, PathCipher = ENC_UNSPECIFIED,
                       DefaultSegmentsSize = 0,
                       DefaultRedundancyScheme = \<lparr>RS_Type = 0, MinReq = 0, Total = 0,
                         RepairThreshold = 0, SuccessThreshold = 0, ErasureShareSize = 0\<rparr>,
                       DefaultEncryptionParameters =
                         \<lparr>CipherSuite = ENC_UNSPECIFIED, BlockSize = 0\<rparr>\<rparr>, v1))"
  using assms by (simp add: convertProtoToBucket_def)

text \<open>
  C9. The bucket id has been generated, and unmarshalling the partner id of the request
  into a zero UUID has left \<open>partnerID\<close> and returned \<open>perr\<close>. Then
  \<open>convertProtoToBucket\<close> returns its \<open>Invalid uuid\<close> error exactly when the parse
  failed and left a non-zero UUID. When the parse failed and left the zero UUID,
  it returns a bucket with the zero partner id; and \<open>CreateBucket\<close>, for a request that
  has passed authorization, name validation, the uniqueness check and the reads of the
  limit check, returns no error of code \<open>InvalidArgument\<close>, the attribution
  bookkeeping being taken not to fail with that code itself.
\<close>

theorem convertProtoToBucket_invalid_uuid:
  assumes new: "uuid_New ep v = (Inr bucketID, v1)"
    and parse: "uuid_UnmarshalJSON ep 0 (CreateReq_PartnerId req) = (partnerID, perr)"
  shows "(fst (convertProtoToBucket ep req projectID v) = Inl (ErrsNew ''Invalid uuid'')
            \<longleftrightarrow> perr \<noteq> None \<and> \<not> IsZero partnerID)
         \<and> (perr \<noteq> None \<and> IsZero partnerID \<longrightarrow>
              (\<exists>b. convertProtoToBucket ep req projectID v = (Inr b, v1) \<and> ID b = bucketID \<and>
                   Name b = CreateReq_Name req \<and> ProjectID b = projectID \<and> PartnerID b = 0))
         \<and> (perr \<noteq> None \<and> IsZero partnerID \<and>
             validateAuth ep (CreateReq_Header req) (Act ActionWrite (CreateReq_Name req) now)
               = Inr keyInfo \<and>
             validateBucket ep (CreateReq_Name req) = None \<and>
             buckets_HasBucket ep (CreateReq_Name req) (KeyInfo_ProjectID keyInfo) w = (Inr False, w1) \<and>
             projects_GetMaxBuckets ep (KeyInfo_ProjectID keyInfo) w1 = (Inr override, w2) \<and>
             buckets_CountBuckets ep (KeyInfo_ProjectID keyInfo) w2 = (Inr bucketCount, v) \<and>
             (\<forall>u err u'. ensureAttribution ep (CreateReq_Header req) keyInfo (CreateReq_Name req) u
                 = (Some err, u') \<longrightarrow> Code err \<noteq> InvalidArgument) \<longrightarrow>
              (\<forall>err. snd (fst (CreateBucket ep req now w)) = Some err \<longrightarrow> Code err \<noteq> InvalidArgument))"
proof (intro conjI impI allI)
  show "fst (convertProtoToBucket ep req projectID v) = Inl (ErrsNew ''Invalid uuid'')
            \<longleftrightarrow> perr \<noteq> None \<and> \<not> IsZero partnerID"
    by (simp add: convertProtoToBucket_eq [OF new parse])
next
  assume "perr \<noteq> None \<and> IsZero partnerID"
  then show "\<exists>b. convertProtoToBucket ep req projectID v = (Inr b, v1) \<and> ID b = bucketID \<and>
                   Name b = CreateReq_Name req \<and> ProjectID b = projectID \<and> PartnerID b = 0"
    by (simp add: convertProtoToBucket_eq [OF new parse] IsZero_def)
next
  fix err
  assume h: "perr \<noteq> None \<and> IsZero partnerID \<and>
             validateAuth ep (CreateReq_Header req) (Act ActionWrite (CreateReq_Name req) now)
               = Inr keyInfo \<and>
             validateBucket ep (CreateReq_Name req) = None \<and>
             buckets_HasBucket ep (CreateReq_Name req) (KeyInfo_ProjectID keyInfo) w = (Inr False, w1) \<and>
             projects_GetMaxBuckets ep (KeyInfo_ProjectID keyInfo) w1 = (Inr override, w2) \<and>
             buckets_CountBuckets ep (KeyInfo_ProjectID keyInfo) w2 = (Inr bucketCount, v) \<and>
             (\<forall>u err u'. ensureAttribution ep (CreateReq_Header req) keyInfo (CreateReq_Name req) u
                 = (Some err, u') \<longrightarrow> Code err \<noteq> InvalidArgument)"
    and e: "snd (fst (CreateBucket ep req now w)) = Some err"
  from h have auth: "validateAuth ep (CreateReq_Header req)
                   (Act ActionWrite (CreateReq_Name req) now) = Inr keyInfo"
    and name: "validateBucket ep (CreateReq_Name req) = None"
    and fresh: "buckets_HasBucket ep (CreateReq_Name req) (KeyInfo_ProjectID keyInfo) w = (Inr False, w1)"
    and limit: "projects_GetMaxBuckets ep (KeyInfo_ProjectID keyInfo) w1 = (Inr override, w2)"
    and count: "buckets_CountBuckets ep (KeyInfo_ProjectID keyInfo) w2 = (Inr bucketCount, v)"
    by simp_all
  from h have zero: "perr \<noteq> None \<and> IsZero partnerID"
    by simp
  from h have attribution: "Code err \<noteq> InvalidArgument"
    if "ensureAttribution ep (CreateReq_Header req) keyInfo (CreateReq_Name req) u = (Some err, u')"
    for u err u'
    using that by blast
  show "Code err \<noteq> InvalidArgument"
    using e zero attribution
    by (auto simp add: CreateBucket_quota [OF auth name fresh limit count]
          convertProtoToBucket_eq [OF new parse]
          split: prod.splits sum.splits option.splits if_splits)
qed

text \<open>
  The instance: the partner id \<open>''not-a-uuid''\<close> does not parse and leaves the zero
  UUID. The conversion does not return the error, and the bucket is created.
\<close>

theorem convertProtoToBucket_invalid_uuid_witness:
  "uuid_UnmarshalJSON (mem_endpoint [ActionWrite] Quiet) 0 ''not-a-uuid''
     = (0, Some (External ''invalid uuid text''))
   \<and> fst (convertProtoToBucket (mem_endpoint [ActionWrite] Quiet) (create_pies ''not-a-uuid'') 1
        (store_with 0)) \<noteq> Inl (ErrsNew ''Invalid uuid'')
   \<and> snd (fst (CreateBucket (mem_endpoint [ActionWrite] Quiet) (create_pies ''not-a-uuid'') 30
        (store_with 0))) = None
   \<and> map Name (catalog (snd (CreateBucket (mem_endpoint [ActionWrite] Quiet)
        (create_pies ''not-a-uuid'') 30 (store_with 0)))) = [''pies'', ''cakes'']"
proof -
  let ?ep = "mem_endpoint [ActionWrite] Quiet"
  let ?req = "create_pies ''not-a-uuid''"
  let ?k = "\<lparr>KeyInfo_ProjectID = 1\<rparr>"
  have new: "uuid_New ?ep (store_with 0) = (Inr 8, (store_with 0)\<lparr>nextID := 9\<rparr>)"
    by (simp add: mem_defs create_pies_def)
  have parse: "uuid_UnmarshalJSON ?ep 0 (CreateReq_PartnerId ?req)
                 = (0, Some (External ''invalid uuid text''))"
    by (simp add: mem_defs create_pies_def)
  have zero: "Some (External ''invalid uuid text'') \<noteq> None \<and> IsZero 0"
    by (simp add: IsZero_def)
  have parse': "uuid_UnmarshalJSON ?ep 0 ''not-a-uuid'' = (0, Some (External ''invalid uuid text''))"
    by (simp add: mem_defs create_pies_def)
  have created: "snd (fst (CreateBucket ?ep ?req 30 (store_with 0))) = None
                 \<and> map Name (catalog (snd (CreateBucket ?ep ?req 30 (store_with 0))))
                     = [''pies'', ''cakes'']"
    by (simp add: mem_defs create_pies_def CreateBucket_def validateAuth_eq convertProtoToBucket_def
          convertBucketToProto_def IsZero_def)
  from convertProtoToBucket_invalid_uuid [OF new parse, of 1 30 ?k "store_with 0"] zero parse' created
  show ?thesis by simp
qed

subsection \<open>The action that listing is authorized by\<close>

text \<open>
  C10. \<open>ListBuckets\<close> authorizes with the action Read, without a bucket, and derives the
  allowed buckets for the same action. For the key of the request: if it permits that
  action, authorization passes, and with the allowed buckets derived for Read the answer
  is the catalogue's listing for them; if it does not permit that action the request is
  denied as \<open>Forbidden\<close> and the world is untouched, whether or not the key permits
  List, which is never asked.
\<close>

theorem ListBuckets_checks_Read:
  assumes key: "getAPIKey ep (ListReq_Header req) = Inr key"
  shows "(permitted key (Act ActionRead [] now) \<longrightarrow>
            validateAuth ep (ListReq_Header req) (Act ActionRead [] now) = Inr (Key_Info key))
         \<and> (permitted key (Act ActionRead [] now) \<and>
             GetAllowedBuckets key (Act ActionRead [] now) = Inr allowed \<and>
             buckets_ListBuckets ep (KeyInfo_ProjectID (Key_Info key))
               \<lparr>Opts_Cursor = ListReq_Cursor req, Opts_Limit = scast (ListReq_Limit req),
                Opts_Direction = scast (ListReq_Direction req)\<rparr> allowed w = (Inr bucketList, w1) \<longrightarrow>
            ListBuckets ep req now w =
              ((Some \<lparr>ListResp_Items =
                        map (\<lambda>item. \<lparr>Item_Name = Name item, Item_CreatedAt = Created item\<rparr>)
                          (List_Items bucketList),
                      ListResp_More = List_More bucketList\<rparr>, None), w1))
         \<and> (\<not> permitted key (Act ActionRead [] now) \<longrightarrow>
            ListBuckets ep req now w = ((None, Some (Denied Forbidden)), w))"
  using key
  by (simp add: ListBuckets_def validateAuth_eq getAllowedBuckets_def Let_def)

text \<open>
  The instance: a key that permits List only is denied; a key that permits Read only
  lists \<open>''cakes''\<close>.
\<close>

theorem ListBuckets_checks_Read_witness:
  "permitted (key_for [ActionList]) (Act ActionList [] 30)
   \<and> ListBuckets (mem_endpoint [ActionList] Quiet) list_first_page 30 (store_with 3) =
       ((None, Some (Denied Forbidden)), store_with 3)
   \<and> \<not> permitted (key_for [ActionRead]) (Act ActionList [] 30)
   \<and> ListBuckets (mem_endpoint [ActionRead] Quiet) list_first_page 30 (store_with 3) =
       ((Some \<lparr>ListResp_Items = [\<lparr>Item_Name = ''cakes'', Item_CreatedAt = 10\<rparr>],
               ListResp_More = False\<rparr>, None), store_with 3)"
proof -
  let ?allowed = "\<lparr>Allowed_All = True, Allowed_Buckets = {}\<rparr>"
  have keyL: "getAPIKey (mem_endpoint [ActionList] Quiet) (ListReq_Header list_first_page)
                = Inr (key_for [ActionList])"
    by (simp add: mem_defs list_first_page_def)
  have keyR: "getAPIKey (mem_endpoint [ActionRead] Quiet) (ListReq_Header list_first_page)
                = Inr (key_for [ActionRead])"
    by (simp add: mem_defs list_first_page_def)
  have onlyL: "permitted (key_for [ActionList]) (Act ActionList [] 30)
               \<and> \<not> permitted (key_for [ActionList]) (Act ActionRead [] 30)"
    by (simp add: mem_defs list_first_page_def)
  have onlyR: "permitted (key_for [ActionRead]) (Act ActionRead [] 30)
               \<and> \<not> permitted (key_for [ActionRead]) (Act ActionList [] 30)"
    by (simp add: mem_defs list_first_page_def)
  have allowed: "GetAllowedBuckets (key_for [ActionRead]) (Act ActionRead [] 30) = Inr ?allowed"
    by (simp add: mem_defs list_first_page_def)
  have listing: "buckets_ListBuckets (mem_endpoint [ActionRead] Quiet)
                   (KeyInfo_ProjectID (Key_Info (key_for [ActionRead])))
                   \<lparr>Opts_Cursor = ListReq_Cursor list_first_page,
                    Opts_Limit = scast (ListReq_Limit list_first_page),
                    Opts_Direction = scast (ListReq_Direction list_first_page)\<rparr> ?allowed
                   (store_with 3)
                 = (Inr \<lparr>List_More = False, List_Items = [cakes]\<rparr>, store_with 3)"
    by (simp add: mem_defs list_first_page_def)
  have item: "map (\<lambda>item. \<lparr>Item_Name = Name item, Item_CreatedAt = Created item\<rparr>) [cakes]
                = [\<lparr>Item_Name = ''cakes'', Item_CreatedAt = 10\<rparr>]"
    by (simp add: cakes_def)
  from ListBuckets_checks_Read [where now = 30 and w = "store_with 3", OF keyL]
       ListBuckets_checks_Read [where now = 30 and w = "store_with 3" and allowed = ?allowed
         and bucketList = "\<lparr>List_More = False, List_Items = [cakes]\<rparr>"
         and ?w1.0 = "store_with 3", OF keyR]
       onlyL onlyR allowed listing item
  show ?thesis by simp
qed

end
